theory Spec2Isabelle
  imports Complex_Main
begin

section \<open>Exceptions, responses and the remote services\<close>

text \<open>
  The Python exceptions that the buffer module and the search driver raise or catch.
  An \<open>HTTPError\<close> carries its message and, when the error has a response, the
  response's status code.
\<close>

datatype exn =
    AssertionError string
  | HTTPError string "nat option"
  | JSONDecodeError string
  | TokenExpiredError
  | KeyError string
  | IndexError
  | ValueError string
  | AttributeError string
  | TypeError string
  | OtherError string

datatype http_method = GET | POST | DELETE

text \<open>
  One entry of the \<open>entry\<close> array answered by \<open>/bib/checkcontrolnumbers\<close>, and one
  entry of the array answered by \<open>/ih/datalist\<close>. The fields carry the JSON keys
  \<open>requestedOclcNumber\<close>, \<open>currentOclcNumber\<close>, \<open>found\<close>, \<open>merged\<close>,
  \<open>httpStatusCode\<close> and \<open>errorDetail\<close>.
\<close>

record check_entry =
  ce_requestedOclcNumber :: string
  ce_currentOclcNumber :: string
  ce_found :: bool
  ce_merged :: bool

record holding_entry =
  he_requestedOclcNumber :: string
  he_currentOclcNumber :: string
  he_httpStatusCode :: string
  he_errorDetail :: string

text \<open>
  What \<open>api_response.json()\<close> gives: the body does not decode (with the decoder's
  message), or it decodes to the object of one of the three endpoints (\<open>SearchBody n nums\<close> is
  \<open>numberOfRecords = n\<close> with the \<open>oclcNumber\<close> of each element of \<open>briefRecords\<close>).
\<close>

datatype body =
    Undecodable string
  | CheckBody "check_entry list"
  | HoldingBody "holding_entry list"
  | SearchBody int "string list"

record response =
  status_code :: nat
  reason :: string
  body :: body

record token =
  access_token :: string
  token_type :: string
  expires_at :: string
  refresh_token :: "string option"
  refresh_token_expires_at :: "string option"

datatype api_outcome = Reply response | Expired | Raises exn

datatype grant_outcome = Granted token | Denied exn

text \<open>Everything the program does to the outside, in the order it does it.\<close>

datatype event =
    ApiCall http_method string string
  | RefreshGrant string "string option"
  | FetchGrant string
  | SetEnvVar string string

text \<open>
  The outside of the program: the HTTP transport behind the OAuth2 session, the
  authorization server and the clock. Each answer may depend on everything that
  happened before (the trace). \<open>timegm_strptime\<close> is
  \<open>calendar.timegm(time.strptime(s, '%Y-%m-%d %H:%M:%SZ'))\<close>, with \<open>Inl m\<close> where
  \<open>strptime\<close> raises \<open>ValueError\<close> with the message \<open>m\<close>; \<open>is_float s\<close> says
  whether \<open>float(s)\<close> returns; \<open>gmtime_stamp\<close> is
  \<open>time.strftime('%Y-%m-%dT%H:%M:%SZ', time.gmtime())\<close>; \<open>set_iteration\<close> is the
  order in which Python iterates over a set of strings.
\<close>

record remote =
  api_reply :: "event list \<Rightarrow> http_method \<Rightarrow> string \<Rightarrow> string \<Rightarrow> api_outcome"
  refresh_reply :: "event list \<Rightarrow> string \<Rightarrow> string option \<Rightarrow> grant_outcome"
  fetch_reply :: "event list \<Rightarrow> string \<Rightarrow> grant_outcome"
  time_now :: "event list \<Rightarrow> real"
  gmtime_stamp :: "event list \<Rightarrow> string"
  timegm_strptime :: "string \<Rightarrow> string + int"
  is_float :: "string \<Rightarrow> bool"
  set_iteration :: "string set \<Rightarrow> string list"

text \<open>
  The state shared by every buffer: \<open>os.environ\<close>, the \<open>.env\<close> file, the access
  token held by the OAuth2 session, and the trace. The session is taken as built by the
  constructor of \<open>RecordsBuffer\<close>.
\<close>

record world =
  environ :: "string \<rightharpoonup> string"
  dotenv :: "string \<rightharpoonup> string"
  session_access_token :: string
  trace :: "event list"

definition environ_get :: "(string \<rightharpoonup> string) \<Rightarrow> string \<Rightarrow> exn + string" where
  "environ_get env k = (case env k of None \<Rightarrow> Inl (KeyError k) | Some v \<Rightarrow> Inr v)"

definition in_environ :: "string \<Rightarrow> (string \<rightharpoonup> string) \<Rightarrow> bool" where
  "in_environ k env = (case env k of None \<Rightarrow> False | Some v \<Rightarrow> True)"

definition getenv :: "(string \<rightharpoonup> string) \<Rightarrow> string \<Rightarrow> string \<Rightarrow> string" where
  "getenv env k d = (case env k of None \<Rightarrow> d | Some v \<Rightarrow> v)"

text \<open>
  Modelled from the spec: \<open>libraries.handle_file.set_env_var\<close> is not among the
  sources. The renewed credential fields are persisted immediately: the variable is set
  in the environment and written to the \<open>.env\<close> file.
\<close>

definition set_env_var :: "string \<Rightarrow> string \<Rightarrow> world \<Rightarrow> world" where
  "set_env_var k v w =
     w\<lparr>environ := (environ w)(k \<mapsto> v),
       dotenv := (dotenv w)(k \<mapsto> v),
       trace := trace w @ [SetEnvVar k v]\<rparr>"

text \<open>
  Modelled from the spec: \<open>libraries.api.log_response_and_raise_for_status\<close> is not
  among the sources. Any HTTP error status (4xx/5xx) on the response is surfaced to the
  caller as an HTTP failure that carries the response.
\<close>

definition log_response_and_raise_for_status :: "response \<Rightarrow> exn + response" where
  "log_response_and_raise_for_status r =
     (if 400 \<le> status_code r \<and> status_code r < 600
      then Inl (HTTPError (reason r) (Some (status_code r)))
      else Inr r)"

section \<open>RecordsBuffer: transaction id and authenticated request\<close>

text \<open>
  The constructor of \<open>RecordsBuffer\<close>: it reads the API key and secret, the access
  token, its expiry (through \<open>float\<close>) and its type from the environment, in this
  order, and builds the OAuth2 session with that token.
\<close>

definition records_buffer_init :: "remote \<Rightarrow> world \<Rightarrow> exn + world" where
  "records_buffer_init R w =
     (case environ_get (environ w) ''WORLDCAT_METADATA_API_KEY'' of
        Inl e \<Rightarrow> Inl e
      | Inr api_key \<Rightarrow>
          (case environ_get (environ w) ''WORLDCAT_METADATA_API_SECRET'' of
             Inl e \<Rightarrow> Inl e
           | Inr api_secret \<Rightarrow>
               (case environ_get (environ w) ''WORLDCAT_METADATA_API_ACCESS_TOKEN'' of
                  Inl e \<Rightarrow> Inl e
                | Inr token_value \<Rightarrow>
                    (case environ_get (environ w)
                            ''WORLDCAT_METADATA_API_ACCESS_TOKEN_EXPIRES_AT'' of
                       Inl e \<Rightarrow> Inl e
                     | Inr expiry \<Rightarrow>
                         (if \<not> is_float R expiry then
                            Inl (ValueError (''could not convert string to float: ''
                                   @ [CHR 0x27] @ expiry @ [CHR 0x27]))
                          else
                            (case environ_get (environ w)
                                    ''WORLDCAT_METADATA_API_ACCESS_TOKEN_TYPE'' of
                               Inl e \<Rightarrow> Inl e
                             | Inr type_value \<Rightarrow>
                                 Inr (w\<lparr>session_access_token := token_value\<rparr>)))))))"

definition get_transaction_id :: "remote \<Rightarrow> world \<Rightarrow> string" where
  "get_transaction_id R w =
     (if in_environ ''OCLC_INSTITUTION_SYMBOL'' (environ w)
         \<or> in_environ ''WORLDCAT_PRINCIPAL_ID'' (environ w)
      then
        (let t0 = getenv (environ w) ''OCLC_INSTITUTION_SYMBOL'' '''';
             t1 = (if t0 \<noteq> '''' then t0 @ ''_'' else t0);
             t2 = t1 @ gmtime_stamp R (trace w)
         in (case environ w ''WORLDCAT_PRINCIPAL_ID'' of
               None \<Rightarrow> t2
             | Some p \<Rightarrow> t2 @ ''_'' @ p))
      else '''')"

definition call_api :: "remote \<Rightarrow> http_method \<Rightarrow> string \<Rightarrow> world \<Rightarrow> api_outcome \<times> world" where
  "call_api R api_request api_url w =
     (api_reply R (trace w) api_request api_url (session_access_token w),
      w\<lparr>trace := trace w @ [ApiCall api_request api_url (session_access_token w)]\<rparr>)"

text \<open>
  The seconds the refresh token still lives: \<open>0.0\<close> stands for the expiry when
  \<open>WORLDCAT_METADATA_API_REFRESH_TOKEN_EXPIRES_AT\<close> is not set.
\<close>

definition refresh_token_expires_in :: "remote \<Rightarrow> world \<Rightarrow> exn + real" where
  "refresh_token_expires_in R w =
     (case environ w ''WORLDCAT_METADATA_API_REFRESH_TOKEN_EXPIRES_AT'' of
        None \<Rightarrow> Inr (0 - time_now R (trace w))
      | Some s \<Rightarrow>
          (case timegm_strptime R s of
             Inl m \<Rightarrow> Inl (ValueError m)
           | Inr expires_at_seconds \<Rightarrow>
               Inr (real_of_int expires_at_seconds - time_now R (trace w))))"

text \<open>
  The refresh-token grant. The OAuth2 session keeps the token it is granted.
\<close>

definition use_refresh_token :: "remote \<Rightarrow> world \<Rightarrow> (exn + token) \<times> world" where
  "use_refresh_token R w =
     (case environ_get (environ w) ''OCLC_AUTHORIZATION_SERVER_TOKEN_URL'' of
        Inl e \<Rightarrow> (Inl e, w)
      | Inr token_url \<Rightarrow>
          (let rt = environ w ''WORLDCAT_METADATA_API_REFRESH_TOKEN'';
               w1 = w\<lparr>trace := trace w @ [RefreshGrant token_url rt]\<rparr>
           in (case refresh_reply R (trace w) token_url rt of
                 Denied e \<Rightarrow> (Inl e, w1)
               | Granted tok \<Rightarrow>
                   (Inr tok, w1\<lparr>session_access_token := access_token tok\<rparr>))))"

text \<open>
  The full client-credentials grant, which stores the refresh token it is granted and
  the refresh token's expiry.
\<close>

definition use_fetch_token :: "remote \<Rightarrow> world \<Rightarrow> (exn + token) \<times> world" where
  "use_fetch_token R w =
     (case environ_get (environ w) ''OCLC_AUTHORIZATION_SERVER_TOKEN_URL'' of
        Inl e \<Rightarrow> (Inl e, w)
      | Inr token_url \<Rightarrow>
          (let w1 = w\<lparr>trace := trace w @ [FetchGrant token_url]\<rparr>
           in (case fetch_reply R (trace w) token_url of
                 Denied e \<Rightarrow> (Inl e, w1)
               | Granted tok \<Rightarrow>
                   (let w2 = w1\<lparr>session_access_token := access_token tok\<rparr>
                    in (case refresh_token tok of
                          None \<Rightarrow> (Inl (KeyError ''refresh_token''), w2)
                        | Some rt \<Rightarrow>
                            (case refresh_token_expires_at tok of
                               None \<Rightarrow> (Inl (KeyError ''refresh_token_expires_at''), w2)
                             | Some rte \<Rightarrow>
                                 (Inr tok,
                                  set_env_var
                                    ''WORLDCAT_METADATA_API_REFRESH_TOKEN_EXPIRES_AT'' rte
                                    (set_env_var
                                       ''WORLDCAT_METADATA_API_REFRESH_TOKEN'' rt w2))))))))"

text \<open>
  The handler of \<open>TokenExpiredError\<close> up to the replay: choose the grant, then store
  the access token, its type and its expiry.
\<close>

definition renew_access_token :: "remote \<Rightarrow> world \<Rightarrow> (exn + token) \<times> world" where
  "renew_access_token R w =
     (case refresh_token_expires_in R w of
        Inl e \<Rightarrow> (Inl e, w)
      | Inr expires_in \<Rightarrow>
          (case (if in_environ ''WORLDCAT_METADATA_API_REFRESH_TOKEN'' (environ w)
                    \<and> expires_in > 25
                 then use_refresh_token R w
                 else use_fetch_token R w) of
             (Inl e, w1) \<Rightarrow> (Inl e, w1)
           | (Inr tok, w1) \<Rightarrow>
               (Inr tok,
                set_env_var ''WORLDCAT_METADATA_API_ACCESS_TOKEN_EXPIRES_AT'' (expires_at tok)
                  (set_env_var ''WORLDCAT_METADATA_API_ACCESS_TOKEN_TYPE'' (token_type tok)
                     (set_env_var ''WORLDCAT_METADATA_API_ACCESS_TOKEN'' (access_token tok)
                        w1)))))"

definition finish_request :: "api_outcome \<times> world \<Rightarrow> (exn + response) \<times> world" where
  "finish_request ow =
     (case ow of
        (Reply r, w) \<Rightarrow> (log_response_and_raise_for_status r, w)
      | (Expired, w) \<Rightarrow> (Inl TokenExpiredError, w)
      | (Raises e, w) \<Rightarrow> (Inl e, w))"

text \<open>The URL of the request: \<open>api_url\<close> once the transaction id is attached.\<close>

definition url_with_transaction_id :: "remote \<Rightarrow> world \<Rightarrow> string \<Rightarrow> string" where
  "url_with_transaction_id R w api_url =
     (let transaction_id = get_transaction_id R w
      in if transaction_id \<noteq> []
         then api_url @ ''&transactionID='' @ transaction_id
         else api_url)"

definition make_api_request ::
  "remote \<Rightarrow> http_method \<Rightarrow> string \<Rightarrow> world \<Rightarrow> (exn + response) \<times> world" where
  "make_api_request R api_request api_url0 w =
     (let api_url = url_with_transaction_id R w api_url0
      in (case call_api R api_request api_url w of
            (Expired, w1) \<Rightarrow>
              (case renew_access_token R w1 of
                 (Inl e, w2) \<Rightarrow> (Inl e, w2)
               | (Inr tok, w2) \<Rightarrow> finish_request (call_api R api_request api_url w2))
          | (first, w1) \<Rightarrow> finish_request (first, w1)))"

text \<open>What a call added to the trace, and the URLs of the API requests among events.\<close>

definition new_events :: "world \<Rightarrow> world \<Rightarrow> event list" where
  "new_events w w' = drop (length (trace w)) (trace w')"

fun api_urls :: "event list \<Rightarrow> string list" where
  "api_urls [] = []"
| "api_urls (ApiCall m u t # evs) = u # api_urls evs"
| "api_urls (ev # evs) = api_urls evs"

section \<open>Output files, counters and small helpers\<close>

text \<open>
  A CSV output file is the list of the rows written to it; \<open>tell() == 0\<close> holds
  exactly while nothing has been written.
\<close>

type_synonym csv = "string list list"

definition writerow :: "string list \<Rightarrow> csv \<Rightarrow> csv" where
  "writerow row f = f @ [row]"

definition write_header_if_new :: "string list \<Rightarrow> csv \<Rightarrow> csv" where
  "write_header_if_new header f = (if f = [] then writerow header f else f)"

text \<open>\<open>results[k] += 1\<close> on the dictionary of counters.\<close>

definition increment :: "(string \<rightharpoonup> int) \<Rightarrow> string \<Rightarrow> exn + (string \<rightharpoonup> int)" where
  "increment results k =
     (case results k of None \<Rightarrow> Inl (KeyError k) | Some n \<Rightarrow> Inr (results(k \<mapsto> n + 1)))"

fun join :: "string \<Rightarrow> string list \<Rightarrow> string" where
  "join sep [] = []"
| "join sep [x] = x"
| "join sep (x # y # ys) = x @ sep @ join sep (y # ys)"

fun str_nat :: "nat \<Rightarrow> string" where
  "str_nat n =
     (if n < 10 then [''0123456789'' ! n]
      else str_nat (n div 10) @ [''0123456789'' ! (n mod 10)])"

declare str_nat.simps [simp del]

definition startswith :: "string \<Rightarrow> string \<Rightarrow> bool" where
  "startswith s p = (take (length p) s = p)"

text \<open>A \<open>for\<close> loop whose body may raise: the first exception ends the loop.\<close>

fun for_each :: "('a \<Rightarrow> 's \<Rightarrow> (exn + unit) \<times> 's) \<Rightarrow> 'a list \<Rightarrow> 's \<Rightarrow> (exn + unit) \<times> 's" where
  "for_each f [] s = (Inr (), s)"
| "for_each f (x # xs) s =
     (case f x s of
        (Inl e, s') \<Rightarrow> (Inl e, s')
      | (Inr u, s') \<Rightarrow> for_each f xs s')"

section \<open>AlmaRecordsBuffer\<close>

text \<open>
  \<open>oclc_num_dict\<close> maps each original OCLC number to its MMS ID; a Python dictionary
  keeps its keys in insertion order, which is the order of the request's identifiers.
\<close>

record alma_records_buffer =
  oclc_num_dict :: "(string \<times> string) list"
  records_with_current_oclc_num :: csv
  records_with_old_oclc_num :: csv
  alma_records_with_errors :: csv

definition alma_add ::
  "string \<Rightarrow> string \<Rightarrow> alma_records_buffer \<Rightarrow> (exn + unit) \<times> alma_records_buffer" where
  "alma_add orig_oclc_num mms_id b =
     (case map_of (oclc_num_dict b) orig_oclc_num of
        Some existing \<Rightarrow>
          (Inl (AssertionError (''OCLC number '' @ orig_oclc_num
                  @ '' already exists in records buffer with MMS ID '' @ existing)), b)
      | None \<Rightarrow> (Inr (), b\<lparr>oclc_num_dict := oclc_num_dict b @ [(orig_oclc_num, mms_id)]\<rparr>))"

definition alma_error_msg :: string where
  "alma_error_msg = ''Problem with Get Current OCLC Number API response''"

text \<open>The body of the loop over \<open>json_response['entry']\<close>.\<close>

definition alma_process_entry ::
  "check_entry \<Rightarrow> (string \<rightharpoonup> int) \<times> alma_records_buffer
     \<Rightarrow> (exn + unit) \<times> ((string \<rightharpoonup> int) \<times> alma_records_buffer)" where
  "alma_process_entry record rb =
     (case rb of (results, b) \<Rightarrow>
        (case map_of (oclc_num_dict b) (ce_requestedOclcNumber record) of
           None \<Rightarrow> (Inl (KeyError (ce_requestedOclcNumber record)), (results, b))
         | Some mms_id \<Rightarrow>
             (if \<not> ce_found record then
                (case increment results ''num_records_with_errors'' of
                   Inl e \<Rightarrow> (Inl e, (results, b))
                 | Inr results' \<Rightarrow>
                     (Inr (), (results',
                        b\<lparr>alma_records_with_errors :=
                            writerow
                              [mms_id, ce_requestedOclcNumber record,
                               alma_error_msg @ '': OCLC number not found'']
                              (write_header_if_new [''MMS ID'', ''OCLC Number'', ''Error'']
                                 (alma_records_with_errors b))\<rparr>)))
              else if \<not> ce_merged record then
                (case increment results ''num_records_with_current_oclc_num'' of
                   Inl e \<Rightarrow> (Inl e, (results, b))
                 | Inr results' \<Rightarrow>
                     (Inr (), (results',
                        b\<lparr>records_with_current_oclc_num :=
                            writerow
                              [mms_id, ce_currentOclcNumber record]
                              (write_header_if_new [''MMS ID'', ''Current OCLC Number'']
                                 (records_with_current_oclc_num b))\<rparr>)))
              else
                (case increment results ''num_records_with_old_oclc_num'' of
                   Inl e \<Rightarrow> (Inl e, (results, b))
                 | Inr results' \<Rightarrow>
                     (Inr (), (results',
                        b\<lparr>records_with_old_oclc_num :=
                            writerow
                              [mms_id, ce_currentOclcNumber record,
                               ce_requestedOclcNumber record]
                              (write_header_if_new
                                 [''MMS ID'', ''Current OCLC Number'', ''Original OCLC Number'']
                                 (records_with_old_oclc_num b))\<rparr>))))))"

text \<open>
  A decoded body of another endpoint's shape raises \<open>KeyError\<close> at the first key it
  lacks.
\<close>

definition alma_url :: "string \<Rightarrow> alma_records_buffer \<Rightarrow> string" where
  "alma_url base b =
     base @ ''/bib/checkcontrolnumbers'' @ ''?oclcNumbers=''
       @ join '','' (map fst (oclc_num_dict b))"

definition alma_process_records ::
  "remote \<Rightarrow> world \<times> (string \<rightharpoonup> int) \<times> alma_records_buffer
     \<Rightarrow> (exn + unit) \<times> (world \<times> (string \<rightharpoonup> int) \<times> alma_records_buffer)" where
  "alma_process_records R st =
     (case st of (w, results, b) \<Rightarrow>
        (case environ_get (environ w) ''WORLDCAT_METADATA_API_URL'' of
           Inl e \<Rightarrow> (Inl e, (w, results, b))
         | Inr base \<Rightarrow>
             (let url = alma_url base b
              in (case make_api_request R GET url w of
                    (Inl e, w1) \<Rightarrow> (Inl e, (w1, results, b))
                  | (Inr api_response, w1) \<Rightarrow>
                      (case body api_response of
                         Undecodable m \<Rightarrow> (Inl (JSONDecodeError m), (w1, results, b))
                       | CheckBody entry \<Rightarrow>
                           (case for_each alma_process_entry entry (results, b) of
                              (r, (results', b')) \<Rightarrow> (r, (w1, results', b')))
                       | HoldingBody entry \<Rightarrow>
                           (if entry = [] then (Inr (), (w1, results, b))
                            else (Inl (KeyError ''found''), (w1, results, b)))
                       | SearchBody n nums \<Rightarrow> (Inl (KeyError ''entry''), (w1, results, b)))))))"

definition alma_remove_all_records :: "alma_records_buffer \<Rightarrow> alma_records_buffer" where
  "alma_remove_all_records b = b\<lparr>oclc_num_dict := []\<rparr>"

section \<open>WorldCatRecordsBuffer\<close>

record worldcat_records_buffer =
  oclc_num_set :: "string set"
  set_or_unset_choice :: string
  cascade :: string
  records_with_no_update_needed :: csv
  records_updated :: csv
  wc_records_with_errors :: csv

definition wc_add ::
  "string \<Rightarrow> worldcat_records_buffer \<Rightarrow> (exn + unit) \<times> worldcat_records_buffer" where
  "wc_add oclc_num b =
     (if oclc_num \<in> oclc_num_set b
      then (Inl (AssertionError (''OCLC number '' @ oclc_num
                   @ '' already exists in records buffer'')), b)
      else (Inr (), b\<lparr>oclc_num_set := insert oclc_num (oclc_num_set b)\<rparr>))"

definition wc_api_name :: "worldcat_records_buffer \<Rightarrow> string" where
  "wc_api_name b =
     (if set_or_unset_choice b = ''set'' then ''Set Holding API'' else ''Unset Holding API'')"

definition wc_error_msg :: "worldcat_records_buffer \<Rightarrow> string" where
  "wc_error_msg b = ''Problem with '' @ wc_api_name b @ '' response''"

definition wc_new_oclc_num :: "holding_entry \<Rightarrow> string" where
  "wc_new_oclc_num record =
     (if he_requestedOclcNumber record = he_currentOclcNumber record then []
      else he_currentOclcNumber record)"

definition wc_oclc_num_msg :: "holding_entry \<Rightarrow> string" where
  "wc_oclc_num_msg record =
     (if he_requestedOclcNumber record = he_currentOclcNumber record then []
      else ''Warning: '' @ ''OCLC number '' @ he_requestedOclcNumber record
             @ '' has been updated to '' @ he_currentOclcNumber record
             @ ''. Consider updating Alma record.'')"

text \<open>The body of the loop over \<open>json_response['entry']\<close>.\<close>

definition wc_process_entry ::
  "holding_entry \<Rightarrow> (string \<rightharpoonup> int) \<times> worldcat_records_buffer
     \<Rightarrow> (exn + unit) \<times> ((string \<rightharpoonup> int) \<times> worldcat_records_buffer)" where
  "wc_process_entry record rb =
     (case rb of (results, b) \<Rightarrow>
        (if he_httpStatusCode record = ''HTTP 200 OK'' then
           (case increment results ''num_records_updated'' of
              Inl e \<Rightarrow> (Inl e, (results, b))
            | Inr results' \<Rightarrow>
                (Inr (), (results',
                   b\<lparr>records_updated :=
                       writerow
                         [he_requestedOclcNumber record, wc_new_oclc_num record,
                          wc_oclc_num_msg record]
                         (write_header_if_new
                            [''Requested OCLC Number'', ''New OCLC Number (if applicable)'',
                             ''Warning'']
                            (records_updated b))\<rparr>)))
         else if he_httpStatusCode record = ''HTTP 409 Conflict'' then
           (case increment results ''num_records_with_no_update_needed'' of
              Inl e \<Rightarrow> (Inl e, (results, b))
            | Inr results' \<Rightarrow>
                (Inr (), (results',
                   b\<lparr>records_with_no_update_needed :=
                       writerow
                         [he_requestedOclcNumber record, wc_new_oclc_num record,
                          wc_error_msg b @ '': '' @ he_errorDetail record @ ''. ''
                            @ wc_oclc_num_msg record]
                         (write_header_if_new
                            [''Requested OCLC Number'', ''New OCLC Number (if applicable)'',
                             ''Error'']
                            (records_with_no_update_needed b))\<rparr>)))
         else
           (case increment results ''num_records_with_errors'' of
              Inl e \<Rightarrow> (Inl e, (results, b))
            | Inr results' \<Rightarrow>
                (Inr (), (results',
                   b\<lparr>wc_records_with_errors :=
                       writerow
                         [he_requestedOclcNumber record, wc_new_oclc_num record,
                          wc_error_msg b @ '': '' @ he_httpStatusCode record @ '': ''
                            @ he_errorDetail record @ ''. '' @ wc_oclc_num_msg record]
                         (write_header_if_new
                            [''Requested OCLC Number'', ''New OCLC Number (if applicable)'',
                             ''Error'']
                            (wc_records_with_errors b))\<rparr>)))))"

text \<open>
  The request of the set/unset operation: \<open>POST\<close> to set, \<open>DELETE\<close> with the
  \<open>cascade\<close> parameter to unset.
\<close>

definition wc_url :: "remote \<Rightarrow> string \<Rightarrow> worldcat_records_buffer \<Rightarrow> string" where
  "wc_url R base b =
     base @ ''/ih/datalist?oclcNumbers='' @ join '','' (set_iteration R (oclc_num_set b))"

definition wc_request ::
  "remote \<Rightarrow> string \<Rightarrow> worldcat_records_buffer \<Rightarrow> http_method \<times> string" where
  "wc_request R base b =
     (if set_or_unset_choice b = ''set'' then (POST, wc_url R base b)
      else (DELETE, wc_url R base b @ ''&cascade='' @ cascade b))"

definition wc_process_records ::
  "remote \<Rightarrow> world \<times> (string \<rightharpoonup> int) \<times> worldcat_records_buffer
     \<Rightarrow> (exn + unit) \<times> (world \<times> (string \<rightharpoonup> int) \<times> worldcat_records_buffer)" where
  "wc_process_records R st =
     (case st of (w, results, b) \<Rightarrow>
        (case environ_get (environ w) ''WORLDCAT_METADATA_API_URL'' of
           Inl e \<Rightarrow> (Inl e, (w, results, b))
         | Inr base \<Rightarrow>
             (let (api_request, url) = wc_request R base b
              in (case make_api_request R api_request url w of
                    (Inl e, w1) \<Rightarrow> (Inl e, (w1, results, b))
                  | (Inr api_response, w1) \<Rightarrow>
                      (case body api_response of
                         Undecodable m \<Rightarrow> (Inl (JSONDecodeError m), (w1, results, b))
                       | HoldingBody entry \<Rightarrow>
                           (case for_each wc_process_entry entry (results, b) of
                              (r, (results', b')) \<Rightarrow> (r, (w1, results', b')))
                       | CheckBody entry \<Rightarrow>
                           (if entry = [] then (Inr (), (w1, results, b))
                            else (Inl (KeyError ''httpStatusCode''), (w1, results, b)))
                       | SearchBody n nums \<Rightarrow> (Inl (KeyError ''entry''), (w1, results, b)))))))"

definition wc_remove_all_records :: "worldcat_records_buffer \<Rightarrow> worldcat_records_buffer" where
  "wc_remove_all_records b = b\<lparr>oclc_num_set := {}\<rparr>"

section \<open>WorldCatSearchBuffer\<close>

text \<open>
  A row of the input file's DataFrame: the identifier columns read from the file (empty
  cells are empty strings) and the result columns, where \<open>None\<close> is NaN.
  \<open>num_records_held_by\<close> is the column \<open>num_records_held_by_{OCLC_INSTITUTION_SYMBOL}\<close>.
\<close>

record frame_row =
  mms_id :: string
  lccn_fixed :: string
  lccn :: string
  isbn :: string
  issn :: string
  gov_doc_class_num_086 :: string
  gpo_item_num_074 :: string
  oclc_num :: "string option"
  num_records_held_by :: "string option"
  num_records_total :: "string option"
  error :: "string option"
  found_multiple_oclc_nums :: "bool option"

text \<open>
  A named tuple of \<open>itertuples\<close>: the row's \<open>Index\<close> and its columns. The frame is
  read from a file, so its index labels are the positions \<open>0, 1, ...\<close>
\<close>

type_synonym record_from_input_file = "nat \<times> frame_row"

definition itertuples :: "frame_row list \<Rightarrow> record_from_input_file list" where
  "itertuples df = zip [0..<length df] df"

text \<open>
  \<open>df.loc[i, column] = v\<close> for an index label \<open>i\<close> that the frame has: the cell is
  set, as pandas 1 and 2 do for any value (the column changes its type where it has to).
  For a label that the frame lacks pandas adds a row; that case is outside this model,
  which leaves the frame as it is. Every record that \<open>itertuples\<close> yields carries a
  label of the frame.
\<close>

definition set_loc :: "nat \<Rightarrow> (frame_row \<Rightarrow> frame_row) \<Rightarrow> frame_row list \<Rightarrow> frame_row list" where
  "set_loc i f df = (if i < length df then df[i := f (df ! i)] else df)"

record search_buffer =
  record_list :: "record_from_input_file list"
  dataframe_for_input_file :: "frame_row list"

text \<open>The constructor: an empty list of records, the frame, and the session.\<close>

definition search_buffer_init ::
  "remote \<Rightarrow> frame_row list \<Rightarrow> world \<Rightarrow> exn + world \<times> search_buffer" where
  "search_buffer_init R df w =
     (case records_buffer_init R w of
        Inl e \<Rightarrow> Inl e
      | Inr w1 \<Rightarrow> Inr (w1, \<lparr>record_list = [], dataframe_for_input_file = df\<rparr>))"

definition search_add ::
  "record_from_input_file \<Rightarrow> search_buffer \<Rightarrow> (exn + unit) \<times> search_buffer" where
  "search_add record_data b =
     (if length (record_list b) = 0
      then (Inr (), b\<lparr>record_list := record_list b @ [record_data]\<rparr>)
      else (Inl (AssertionError (''Cannot add to a non-empty WorldCatSearchBuffer. ''
                   @ ''Buffer currently contains '' @ str_nat (length (record_list b))
                   @ '' record(s).'')), b))"

text \<open>
  \<open>process_records\<close> of the search buffer. Its one parameter (named \<open>results\<close>) is not
  read anywhere in its body; the driver passes its command-line flag there.
\<close>

definition search_url :: "string \<Rightarrow> string \<Rightarrow> frame_row \<Rightarrow> string" where
  "search_url base symbol row =
     base @ ''/brief-bibs'' @ ''?q=nl:'' @ lccn row @ ''&heldBySymbol='' @ symbol"

definition search_process_records ::
  "remote \<Rightarrow> bool \<Rightarrow> world \<times> search_buffer \<Rightarrow> (exn + unit) \<times> (world \<times> search_buffer)" where
  "search_process_records R results st =
     (case st of (w, b) \<Rightarrow>
        (case record_list b of
           [(Index, row)] \<Rightarrow>
             (case environ_get (environ w) ''WORLDCAT_METADATA_API_URL_FOR_SEARCH'' of
                Inl e \<Rightarrow> (Inl e, (w, b))
              | Inr base \<Rightarrow>
                  (case environ_get (environ w) ''OCLC_INSTITUTION_SYMBOL'' of
                     Inl e \<Rightarrow> (Inl e, (w, b))
                   | Inr symbol \<Rightarrow>
                       (let url = search_url base symbol row
                        in (case make_api_request R GET url w of
                              (Inl e, w1) \<Rightarrow> (Inl e, (w1, b))
                            | (Inr api_response, w1) \<Rightarrow>
                                (case body api_response of
                                   Undecodable m \<Rightarrow> (Inl (JSONDecodeError m), (w1, b))
                                 | SearchBody numberOfRecords briefRecords \<Rightarrow>
                                     (if numberOfRecords = 0 then
                                        (Inl (AssertionError ''No records found in WorldCat.''),
                                         (w1, b))
                                      else if numberOfRecords = 1 then
                                        (case briefRecords of
                                           [] \<Rightarrow> (Inl IndexError, (w1, b))
                                         | oclcNumber # rest \<Rightarrow>
                                             (Inr (), (w1,
                                                b\<lparr>dataframe_for_input_file :=
                                                    set_loc Index
                                                      (\<lambda>r. r\<lparr>oclc_num := Some oclcNumber\<rparr>)
                                                      (dataframe_for_input_file b)\<rparr>)))
                                      else
                                        (Inr (), (w1,
                                           b\<lparr>dataframe_for_input_file :=
                                               set_loc Index
                                                 (\<lambda>r. r\<lparr>found_multiple_oclc_nums := Some True\<rparr>)
                                                 (dataframe_for_input_file b)\<rparr>)))
                                 | CheckBody entry \<Rightarrow>
                                     (Inl (KeyError ''numberOfRecords''), (w1, b))
                                 | HoldingBody entry \<Rightarrow>
                                     (Inl (KeyError ''numberOfRecords''), (w1, b)))))))
         | other \<Rightarrow>
             (Inl (AssertionError (''Buffer must contain exactly one record but instead ''
                     @ ''contains '' @ str_nat (length (record_list b))
                     @ '' records. Cannot process buffer.'')), (w, b))))"

definition search_remove_all_records :: "search_buffer \<Rightarrow> search_buffer" where
  "search_remove_all_records b = b\<lparr>record_list := []\<rparr>"

section \<open>The search driver\<close>

text \<open>
  \<open>libraries.record.get_valid_record_identifier\<close> is not among the sources: it is
  the parameter \<open>valid\<close>, which returns the identifier or raises. Logging is not part
  of the model, except where a log line reads an attribute that may not be there.
\<close>

text \<open>\<open>str(err)\<close> for an exception.\<close>

definition str_exn :: "exn \<Rightarrow> string" where
  "str_exn e =
     (case e of
        AssertionError m \<Rightarrow> m
      | HTTPError m status \<Rightarrow> m
      | JSONDecodeError m \<Rightarrow> m
      | TokenExpiredError \<Rightarrow> ''(token_expired) ''
      | KeyError k \<Rightarrow> [CHR 0x27] @ k @ [CHR 0x27]
      | IndexError \<Rightarrow> ''list index out of range''
      | ValueError m \<Rightarrow> m
      | AttributeError m \<Rightarrow> m
      | TypeError m \<Rightarrow> m
      | OtherError m \<Rightarrow> m)"

text \<open>
  The driver's \<open>data\<close> and the buffer's \<open>dataframe_for_input_file\<close> are one object,
  so the frame is kept in the buffer.
\<close>

record run_state =
  run_world :: world
  records_buffer :: search_buffer
  records_already_processed :: "string set"

datatype row_outcome = Continue | Break | Propagate exn

definition run_process_records :: "remote \<Rightarrow> bool \<Rightarrow> run_state \<Rightarrow> (exn + unit) \<times> run_state" where
  "run_process_records R flag s =
     (case search_process_records R flag (run_world s, records_buffer s) of
        (r, (w, b)) \<Rightarrow> (r, s\<lparr>run_world := w, records_buffer := b\<rparr>))"

text \<open>The body of the \<open>try\<close> block.\<close>

definition try_row ::
  "remote \<Rightarrow> (string \<Rightarrow> string \<Rightarrow> exn + string) \<Rightarrow> bool \<Rightarrow> record_from_input_file
     \<Rightarrow> run_state \<Rightarrow> (exn + unit) \<times> run_state" where
  "try_row R valid flag row s =
     (case valid (mms_id (snd row)) ''MMS ID'' of
        Inl e \<Rightarrow> (Inl e, s)
      | Inr mms \<Rightarrow>
          (if mms \<in> records_already_processed s then
             (Inl (AssertionError (''Record with MMS ID '' @ mms
                     @ '' has already been processed.'')), s)
           else
             (let s1 = s\<lparr>records_already_processed :=
                          insert mms (records_already_processed s)\<rparr>
              in if length (record_list (records_buffer s1)) \<noteq> 0 then
                   (Inl (AssertionError (''Records buffer was not properly emptied. ''
                           @ ''It currently contains ''
                           @ str_nat (length (record_list (records_buffer s1)))
                           @ '' record(s).'')), s1)
                 else
                   (case search_add row (records_buffer s1) of
                      (Inl e, b) \<Rightarrow> (Inl e, s1\<lparr>records_buffer := b\<rparr>)
                    | (Inr u, b) \<Rightarrow>
                        run_process_records R flag (s1\<lparr>records_buffer := b\<rparr>)))))"

text \<open>
  The \<open>finally\<close> block. \<open>error_msg\<close> is \<open>Some\<close> exactly where the source has
  \<open>error_occurred\<close> set; \<open>pending\<close> is an exception that left a handler and goes on
  once the block is done.
\<close>

definition finally_row ::
  "nat \<Rightarrow> string option \<Rightarrow> bool \<Rightarrow> exn option \<Rightarrow> run_state \<Rightarrow> row_outcome \<times> run_state" where
  "finally_row Index error_msg consecutive_errors_occurred pending s =
     (let s1 = (case error_msg of
                  None \<Rightarrow> s
                | Some m \<Rightarrow>
                    s\<lparr>records_buffer := (records_buffer s)
                        \<lparr>dataframe_for_input_file :=
                           set_loc Index (\<lambda>r. r\<lparr>error := Some m\<rparr>)
                             (dataframe_for_input_file (records_buffer s))\<rparr>\<rparr>)
      in if consecutive_errors_occurred then (Break, s1)
         else
           (let s2 = s1\<lparr>records_buffer := search_remove_all_records (records_buffer s1)\<rparr>
            in (case pending of
                  None \<Rightarrow> (Continue, s2)
                | Some e \<Rightarrow> (Propagate e, s2))))"

text \<open>One pass of the loop over the rows: \<open>try\<close>, the handlers, \<open>finally\<close>.\<close>

definition process_row ::
  "remote \<Rightarrow> (string \<Rightarrow> string \<Rightarrow> exn + string) \<Rightarrow> bool \<Rightarrow> record_from_input_file
     \<Rightarrow> run_state \<Rightarrow> row_outcome \<times> run_state" where
  "process_row R valid flag row s =
     (case try_row R valid flag row s of
        (Inr u, s1) \<Rightarrow> finally_row (fst row) None False None s1
      | (Inl (AssertionError m), s1) \<Rightarrow>
          finally_row (fst row) (Some (''Assertion Error: '' @ m)) False None s1
      | (Inl (HTTPError m status), s1) \<Rightarrow>
          (if startswith (case status of None \<Rightarrow> [] | Some c \<Rightarrow> str_nat c) ''5'' then
             (case run_process_records R flag s1 of
                (Inr u, s2) \<Rightarrow> finally_row (fst row) None False None s2
              | (Inl (HTTPError m2 status2), s2) \<Rightarrow>
                  finally_row (fst row) (Some (''HTTP Error: '' @ m2)) True None s2
              | (Inl e, s2) \<Rightarrow>
                  finally_row (fst row) (Some (''HTTP Error: '' @ m)) False (Some e) s2)
           else finally_row (fst row) (Some (''HTTP Error: '' @ m)) False None s1)
      | (Inl (JSONDecodeError m), s1) \<Rightarrow>
          finally_row (fst row) (Some (''JSON Decode Error: '' @ m)) False None s1
      | (Inl e, s1) \<Rightarrow> finally_row (fst row) (Some (str_exn e)) False None s1)"

text \<open>The loop: \<open>Break\<close> and an exception that goes on both end it.\<close>

fun run_rows ::
  "remote \<Rightarrow> (string \<Rightarrow> string \<Rightarrow> exn + string) \<Rightarrow> bool \<Rightarrow> record_from_input_file list
     \<Rightarrow> run_state \<Rightarrow> row_outcome \<times> run_state" where
  "run_rows R valid flag [] s = (Continue, s)"
| "run_rows R valid flag (row # rows) s =
     (case process_row R valid flag row s of
        (Continue, s') \<Rightarrow> run_rows R valid flag rows s'
      | (out, s') \<Rightarrow> (out, s'))"

text \<open>
  What the name \<open>libraries.records_buffer\<close> gives the driver: the classes that
  \<open>records_buffer.py\<close> defines. (The module's other names are its imports, \<open>logger\<close>
  and \<open>dotenv_file\<close>.) It defines no \<open>RecordSearchBuffer\<close>, the name under which
  \<open>main\<close> builds its buffer.
\<close>

datatype buffer_class =
    RecordsBuffer_class
  | AlmaRecordsBuffer_class
  | WorldCatRecordsBuffer_class
  | WorldCatSearchBuffer_class

definition records_buffer_module :: "string \<rightharpoonup> buffer_class" where
  "records_buffer_module =
     [''RecordsBuffer'' \<mapsto> RecordsBuffer_class,
      ''AlmaRecordsBuffer'' \<mapsto> AlmaRecordsBuffer_class,
      ''WorldCatRecordsBuffer'' \<mapsto> WorldCatRecordsBuffer_class,
      ''WorldCatSearchBuffer'' \<mapsto> WorldCatSearchBuffer_class]"

definition quoted :: "string \<Rightarrow> string" where
  "quoted s = [CHR 0x27] @ s @ [CHR 0x27]"

text \<open>Reading an attribute of the module: a name it lacks raises \<open>AttributeError\<close>.\<close>

definition module_getattr :: "(string \<rightharpoonup> buffer_class) \<Rightarrow> string \<Rightarrow> exn + buffer_class" where
  "module_getattr namespace name =
     (case namespace name of
        None \<Rightarrow>
          Inl (AttributeError (''module '' @ quoted ''libraries.records_buffer''
                 @ '' has no attribute '' @ quoted name))
      | Some cls \<Rightarrow> Inr cls)"

text \<open>
  Calling a class of the module with the frame as its one argument. Only the
  constructor of \<open>WorldCatSearchBuffer\<close> takes one argument; the others raise
  \<open>TypeError\<close> (with the wording of Python 3.10 and later).
\<close>

definition construct ::
  "buffer_class \<Rightarrow> remote \<Rightarrow> frame_row list \<Rightarrow> world \<Rightarrow> exn + world \<times> search_buffer" where
  "construct cls R df w =
     (case cls of
        WorldCatSearchBuffer_class \<Rightarrow> search_buffer_init R df w
      | RecordsBuffer_class \<Rightarrow>
          Inl (TypeError
            ''RecordsBuffer.__init__() takes 1 positional argument but 2 were given'')
      | AlmaRecordsBuffer_class \<Rightarrow>
          Inl (TypeError (''AlmaRecordsBuffer.__init__() missing 2 required positional ''
                 @ ''arguments: '' @ quoted ''records_with_old_oclc_num'' @ '' and ''
                 @ quoted ''records_with_errors''))
      | WorldCatRecordsBuffer_class \<Rightarrow>
          Inl (TypeError (''WorldCatRecordsBuffer.__init__() missing 4 required positional ''
                 @ ''arguments: '' @ quoted ''cascade'' @ '', ''
                 @ quoted ''records_with_no_update_needed'' @ '', ''
                 @ quoted ''records_updated'' @ '', and '' @ quoted ''records_with_errors'')))"

text \<open>
  The attributes of a \<open>WorldCatSearchBuffer\<close> object: what its class and
  \<open>RecordsBuffer\<close> define (the attributes that every object has apart). The closing log
  lines of \<open>main\<close> read three counters of the buffer that are not among them.
\<close>

definition search_buffer_attributes :: "string list" where
  "search_buffer_attributes =
     [''record_list'', ''dataframe_for_input_file'', ''contents'', ''auth'',
      ''oauth_session'', ''add'', ''process_records'', ''remove_all_records'',
      ''get_transaction_id'', ''make_api_request'']"

definition search_buffer_getattr :: "string \<Rightarrow> exn + unit" where
  "search_buffer_getattr name =
     (if name \<in> set search_buffer_attributes then Inr ()
      else Inl (AttributeError (quoted ''WorldCatSearchBuffer'' @ '' object has no attribute ''
                  @ quoted name)))"

text \<open>The three output files, as the rows written to each.\<close>

record outputs =
  records_with_oclc_num :: "frame_row list"
  records_with_zero_or_multiple_worldcat_matches :: "frame_row list"
  records_with_errors :: "frame_row list"

definition create_outputs :: "frame_row list \<Rightarrow> outputs" where
  "create_outputs df =
     \<lparr>records_with_oclc_num = filter (\<lambda>r. oclc_num r \<noteq> None) df,
      records_with_zero_or_multiple_worldcat_matches =
        filter (\<lambda>r. \<not> (num_records_held_by r = None \<and> num_records_total r = None)) df,
      records_with_errors = filter (\<lambda>r. error r \<noteq> None) df\<rparr>"

definition total_records_in_output_files :: "outputs \<Rightarrow> nat" where
  "total_records_in_output_files out =
     length (records_with_oclc_num out)
     + length (records_with_zero_or_multiple_worldcat_matches out)
     + length (records_with_errors out)"

text \<open>
  The end of \<open>main\<close>, once the loop is left without an exception: the three output
  files are written, the log line reads the three counters of the buffer, and the final
  assertion compares the rows of the input with the rows of the output files.
\<close>

definition finish_main :: "run_state \<Rightarrow> exn option \<times> outputs option \<times> run_state" where
  "finish_main s =
     (let df = dataframe_for_input_file (records_buffer s);
          files = create_outputs df
      in (case search_buffer_getattr ''num_api_requests_made'' of
            Inl e \<Rightarrow> (Some e, Some files, s)
          | Inr u1 \<Rightarrow>
              (case search_buffer_getattr ''num_records_needing_one_api_request'' of
                 Inl e \<Rightarrow> (Some e, Some files, s)
               | Inr u2 \<Rightarrow>
                   (case search_buffer_getattr ''num_records_needing_two_api_requests'' of
                      Inl e \<Rightarrow> (Some e, Some files, s)
                    | Inr u3 \<Rightarrow>
                        (if length df = total_records_in_output_files files
                         then (None, Some files, s)
                         else (Some (AssertionError (''Total records in input file (''
                                       @ str_nat (length df)
                                       @ '') do not equal total records in output files (''
                                       @ str_nat (total_records_in_output_files files)
                                       @ '').'' @ [CHR 0x0A])),
                               Some files, s))))))"

text \<open>
  \<open>main\<close>, from the module \<open>libraries.records_buffer\<close> as the driver finds it and the
  frame read from the input file: the exception that ends the script (if any), the
  output files (if the script came to write them) and the final state. Before the buffer
  is built the state holds the frame and an empty list of records. The loop runs on the
  object that the call of \<open>RecordSearchBuffer\<close> returns, so it runs only where the
  module has that name, and then on a \<open>WorldCatSearchBuffer\<close>, the one class of the
  module that can be built from the frame alone.
\<close>

definition main ::
  "(string \<rightharpoonup> buffer_class) \<Rightarrow> remote \<Rightarrow> (string \<Rightarrow> string \<Rightarrow> exn + string) \<Rightarrow> bool
     \<Rightarrow> world \<Rightarrow> frame_row list \<Rightarrow> exn option \<times> outputs option \<times> run_state" where
  "main namespace R valid search_my_library_holdings_first w input =
     (let data = map (\<lambda>r. r\<lparr>oclc_num := None, num_records_held_by := None,
                            num_records_total := None, error := None\<rparr>) input;
          s0 = \<lparr>run_world = w,
                records_buffer = \<lparr>record_list = [], dataframe_for_input_file = data\<rparr>,
                records_already_processed = {}\<rparr>
      in (case environ_get (environ w) ''OCLC_INSTITUTION_SYMBOL'' of
            Inl e \<Rightarrow> (Some e, None, s0)
          | Inr symbol \<Rightarrow>
              (case module_getattr namespace ''RecordSearchBuffer'' of
                 Inl e \<Rightarrow> (Some e, None, s0)
               | Inr cls \<Rightarrow>
                   (case construct cls R data w of
                      Inl e \<Rightarrow> (Some e, None, s0)
                    | Inr (w1, records_buffer0) \<Rightarrow>
                        (case run_rows R valid search_my_library_holdings_first
                                (itertuples data)
                                \<lparr>run_world = w1, records_buffer = records_buffer0,
                                 records_already_processed = {}\<rparr> of
                           (Propagate e, s) \<Rightarrow> (Some e, None, s)
                         | (out, s) \<Rightarrow> finish_main s)))))"

section \<open>The rows each operation is to write\<close>

text \<open>
  The file after \<open>rows\<close> have been written to it, each write preceded by the check
  that puts the header first in a file that is still empty.
\<close>

definition append_rows :: "string list \<Rightarrow> csv \<Rightarrow> csv \<Rightarrow> csv" where
  "append_rows header rows f =
     (if rows = [] then f else (if f = [] then [header] else f) @ rows)"

text \<open>The holdings check: the three buckets and the row of each.\<close>

definition alma_error_entries :: "check_entry list \<Rightarrow> check_entry list" where
  "alma_error_entries es = filter (\<lambda>e. \<not> ce_found e) es"

definition alma_current_entries :: "check_entry list \<Rightarrow> check_entry list" where
  "alma_current_entries es = filter (\<lambda>e. ce_found e \<and> \<not> ce_merged e) es"

definition alma_old_entries :: "check_entry list \<Rightarrow> check_entry list" where
  "alma_old_entries es = filter (\<lambda>e. ce_found e \<and> ce_merged e) es"

definition record_key :: "alma_records_buffer \<Rightarrow> check_entry \<Rightarrow> string" where
  "record_key b e =
     (case map_of (oclc_num_dict b) (ce_requestedOclcNumber e) of
        None \<Rightarrow> []
      | Some key \<Rightarrow> key)"

definition alma_error_row :: "alma_records_buffer \<Rightarrow> check_entry \<Rightarrow> string list" where
  "alma_error_row b e =
     [record_key b e, ce_requestedOclcNumber e,
      ''Problem with Get Current OCLC Number API response: OCLC number not found'']"

definition alma_current_row :: "alma_records_buffer \<Rightarrow> check_entry \<Rightarrow> string list" where
  "alma_current_row b e = [record_key b e, ce_currentOclcNumber e]"

definition alma_old_row :: "alma_records_buffer \<Rightarrow> check_entry \<Rightarrow> string list" where
  "alma_old_row b e = [record_key b e, ce_currentOclcNumber e, ce_requestedOclcNumber e]"

text \<open>Set/unset holding: the three buckets and the row of each.\<close>

definition wc_updated_entries :: "holding_entry list \<Rightarrow> holding_entry list" where
  "wc_updated_entries es = filter (\<lambda>e. he_httpStatusCode e = ''HTTP 200 OK'') es"

definition wc_no_update_entries :: "holding_entry list \<Rightarrow> holding_entry list" where
  "wc_no_update_entries es = filter (\<lambda>e. he_httpStatusCode e = ''HTTP 409 Conflict'') es"

definition wc_error_entries :: "holding_entry list \<Rightarrow> holding_entry list" where
  "wc_error_entries es =
     filter (\<lambda>e. he_httpStatusCode e \<noteq> ''HTTP 200 OK''
                 \<and> he_httpStatusCode e \<noteq> ''HTTP 409 Conflict'') es"

definition wc_warning :: "holding_entry \<Rightarrow> string" where
  "wc_warning e =
     (if he_currentOclcNumber e \<noteq> he_requestedOclcNumber e
      then ''Warning: OCLC number '' @ he_requestedOclcNumber e @ '' has been updated to ''
             @ he_currentOclcNumber e @ ''. Consider updating Alma record.''
      else [])"

definition wc_new_number :: "holding_entry \<Rightarrow> string" where
  "wc_new_number e =
     (if he_currentOclcNumber e \<noteq> he_requestedOclcNumber e then he_currentOclcNumber e
      else [])"

definition wc_updated_row :: "holding_entry \<Rightarrow> string list" where
  "wc_updated_row e = [he_requestedOclcNumber e, wc_new_number e, wc_warning e]"

definition wc_no_update_row :: "string \<Rightarrow> holding_entry \<Rightarrow> string list" where
  "wc_no_update_row choice e =
     [he_requestedOclcNumber e, wc_new_number e,
      ''Problem with '' @ (if choice = ''set'' then ''Set'' else ''Unset'')
        @ '' Holding API response: '' @ he_errorDetail e @ ''. '' @ wc_warning e]"

definition wc_error_row :: "string \<Rightarrow> holding_entry \<Rightarrow> string list" where
  "wc_error_row choice e =
     [he_requestedOclcNumber e, wc_new_number e,
      ''Problem with '' @ (if choice = ''set'' then ''Set'' else ''Unset'')
        @ '' Holding API response: '' @ he_httpStatusCode e @ '': '' @ he_errorDetail e
        @ ''. '' @ wc_warning e]"

definition wc_header :: "string \<Rightarrow> string list" where
  "wc_header third = [''Requested OCLC Number'', ''New OCLC Number (if applicable)'', third]"

section \<open>Concrete scenarios\<close>

text \<open>
  A scripted outside for the concrete runs below: the \<open>n\<close>-th API request gets the
  \<open>n\<close>-th reply of the script, both grants answer \<open>grant\<close>, and the clock stands at
  \<open>now\<close>.
\<close>

definition scripted :: "api_outcome list \<Rightarrow> grant_outcome \<Rightarrow> real \<Rightarrow> remote" where
  "scripted replies grant now =
     \<lparr>api_reply = (\<lambda>tr m u t. case drop (length (api_urls tr)) replies of
                                  [] \<Rightarrow> Raises (OtherError ''connection refused'')
                                | r # rs \<Rightarrow> r),
      refresh_reply = (\<lambda>tr u rt. grant),
      fetch_reply = (\<lambda>tr u. grant),
      time_now = (\<lambda>tr. now),
      gmtime_stamp = (\<lambda>tr. ''2021-09-30T22:43:07Z''),
      timegm_strptime = (\<lambda>s. if s = ''2021-10-07 22:43:07Z'' then Inr 1633646587
                              else Inl ''unconverted data remains''),
      is_float = (\<lambda>s. s = ''1633042987.0''),
      set_iteration = (\<lambda>S. filter (\<lambda>x. x \<in> S) [''1'', ''2'', ''3''])\<rparr>"

definition demo_world :: "(string \<times> string) list \<Rightarrow> world" where
  "demo_world extra =
     \<lparr>environ = map_of (extra @
         [(''WORLDCAT_METADATA_API_URL'', ''https://worldcat.org''),
          (''WORLDCAT_METADATA_API_URL_FOR_SEARCH'', ''https://search''),
          (''OCLC_AUTHORIZATION_SERVER_TOKEN_URL'', ''https://oauth'')]),
      dotenv = Map.empty,
      session_access_token = ''tk_old'',
      trace = []\<rparr>"

definition ok_response :: "body \<Rightarrow> api_outcome" where
  "ok_response b = Reply \<lparr>status_code = 200, reason = ''OK'', body = b\<rparr>"

definition error_response :: "nat \<Rightarrow> api_outcome" where
  "error_response c = Reply \<lparr>status_code = c, reason = ''Error'', body = Undecodable []\<rparr>"

definition demo_token :: token where
  "demo_token =
     \<lparr>access_token = ''tk_new'', token_type = ''bearer'', expires_at = ''1633042987.0'',
      refresh_token = Some ''rt_new'',
      refresh_token_expires_at = Some ''2021-10-07 22:43:07Z''\<rparr>"

definition demo_row :: "string \<Rightarrow> string \<Rightarrow> frame_row" where
  "demo_row m l =
     \<lparr>mms_id = m, lccn_fixed = [], lccn = l, isbn = [], issn = [],
      gov_doc_class_num_086 = [], gpo_item_num_074 = [],
      oclc_num = None, num_records_held_by = None, num_records_total = None,
      error = None, found_multiple_oclc_nums = None\<rparr>"

text \<open>
  An environment with the institution symbol and the credentials that the constructor
  of \<open>RecordsBuffer\<close> reads.
\<close>

definition demo_credentials :: "(string \<times> string) list" where
  "demo_credentials =
     [(''OCLC_INSTITUTION_SYMBOL'', ''ABC''),
      (''WORLDCAT_METADATA_API_KEY'', ''key''),
      (''WORLDCAT_METADATA_API_SECRET'', ''secret''),
      (''WORLDCAT_METADATA_API_ACCESS_TOKEN'', ''tk_old''),
      (''WORLDCAT_METADATA_API_ACCESS_TOKEN_EXPIRES_AT'', ''1633042987.0''),
      (''WORLDCAT_METADATA_API_ACCESS_TOKEN_TYPE'', ''bearer'')]"

text \<open>
  The module as it would be with the name that the driver uses bound to the search
  buffer class. The sources have no such binding.
\<close>

definition module_with_search_buffer_name :: "string \<rightharpoonup> buffer_class" where
  "module_with_search_buffer_name =
     records_buffer_module(''RecordSearchBuffer'' \<mapsto> WorldCatSearchBuffer_class)"

text \<open>A stand-in for the identifier check of the driver: digits only.\<close>

definition digits_only :: "string \<Rightarrow> string \<Rightarrow> exn + string" where
  "digits_only s name =
     (if s \<noteq> [] \<and> list_all (\<lambda>c. c \<in> set ''0123456789'') s then Inr s
      else Inl (AssertionError (name @ '' is invalid'')))"

section \<open>Facts about the authenticated request\<close>

lemma finish_request_snd: "snd (finish_request (a, w)) = w"
  by (simp add: finish_request_def split: api_outcome.splits)

lemma call_api_fields:
  "call_api R m u w = (out, w1) \<Longrightarrow>
     out = api_reply R (trace w) m u (session_access_token w)
     \<and> trace w1 = trace w @ [ApiCall m u (session_access_token w)]
     \<and> environ w1 = environ w \<and> dotenv w1 = dotenv w
     \<and> session_access_token w1 = session_access_token w"
  by (auto simp: call_api_def)

lemma renew_refresh:
  assumes "environ w ''OCLC_AUTHORIZATION_SERVER_TOKEN_URL'' = Some token_url"
    and "refresh_token_expires_in R w = Inr remaining"
    and "in_environ ''WORLDCAT_METADATA_API_REFRESH_TOKEN'' (environ w) \<and> remaining > 25"
    and "refresh_reply R (trace w) token_url (environ w ''WORLDCAT_METADATA_API_REFRESH_TOKEN'')
           = Granted tok"
  shows "renew_access_token R w =
     (Inr tok,
      w\<lparr>environ := (environ w)
           (''WORLDCAT_METADATA_API_ACCESS_TOKEN'' \<mapsto> access_token tok,
            ''WORLDCAT_METADATA_API_ACCESS_TOKEN_TYPE'' \<mapsto> token_type tok,
            ''WORLDCAT_METADATA_API_ACCESS_TOKEN_EXPIRES_AT'' \<mapsto> expires_at tok),
        dotenv := (dotenv w)
           (''WORLDCAT_METADATA_API_ACCESS_TOKEN'' \<mapsto> access_token tok,
            ''WORLDCAT_METADATA_API_ACCESS_TOKEN_TYPE'' \<mapsto> token_type tok,
            ''WORLDCAT_METADATA_API_ACCESS_TOKEN_EXPIRES_AT'' \<mapsto> expires_at tok),
        session_access_token := access_token tok,
        trace := trace w @
          [RefreshGrant token_url (environ w ''WORLDCAT_METADATA_API_REFRESH_TOKEN''),
           SetEnvVar ''WORLDCAT_METADATA_API_ACCESS_TOKEN'' (access_token tok),
           SetEnvVar ''WORLDCAT_METADATA_API_ACCESS_TOKEN_TYPE'' (token_type tok),
           SetEnvVar ''WORLDCAT_METADATA_API_ACCESS_TOKEN_EXPIRES_AT'' (expires_at tok)]\<rparr>)"
  using assms
  by (simp add: renew_access_token_def use_refresh_token_def environ_get_def set_env_var_def Let_def)

lemma renew_fetch:
  assumes "environ w ''OCLC_AUTHORIZATION_SERVER_TOKEN_URL'' = Some token_url"
    and "refresh_token_expires_in R w = Inr remaining"
    and "\<not> (in_environ ''WORLDCAT_METADATA_API_REFRESH_TOKEN'' (environ w) \<and> remaining > 25)"
    and "fetch_reply R (trace w) token_url = Granted tok"
    and "refresh_token tok = Some rt" and "refresh_token_expires_at tok = Some rte"
  shows "renew_access_token R w =
     (Inr tok,
      w\<lparr>environ := (environ w)
           (''WORLDCAT_METADATA_API_REFRESH_TOKEN'' \<mapsto> rt,
            ''WORLDCAT_METADATA_API_REFRESH_TOKEN_EXPIRES_AT'' \<mapsto> rte,
            ''WORLDCAT_METADATA_API_ACCESS_TOKEN'' \<mapsto> access_token tok,
            ''WORLDCAT_METADATA_API_ACCESS_TOKEN_TYPE'' \<mapsto> token_type tok,
            ''WORLDCAT_METADATA_API_ACCESS_TOKEN_EXPIRES_AT'' \<mapsto> expires_at tok),
        dotenv := (dotenv w)
           (''WORLDCAT_METADATA_API_REFRESH_TOKEN'' \<mapsto> rt,
            ''WORLDCAT_METADATA_API_REFRESH_TOKEN_EXPIRES_AT'' \<mapsto> rte,
            ''WORLDCAT_METADATA_API_ACCESS_TOKEN'' \<mapsto> access_token tok,
            ''WORLDCAT_METADATA_API_ACCESS_TOKEN_TYPE'' \<mapsto> token_type tok,
            ''WORLDCAT_METADATA_API_ACCESS_TOKEN_EXPIRES_AT'' \<mapsto> expires_at tok),
        session_access_token := access_token tok,
        trace := trace w @
          [FetchGrant token_url,
           SetEnvVar ''WORLDCAT_METADATA_API_REFRESH_TOKEN'' rt,
           SetEnvVar ''WORLDCAT_METADATA_API_REFRESH_TOKEN_EXPIRES_AT'' rte,
           SetEnvVar ''WORLDCAT_METADATA_API_ACCESS_TOKEN'' (access_token tok),
           SetEnvVar ''WORLDCAT_METADATA_API_ACCESS_TOKEN_TYPE'' (token_type tok),
           SetEnvVar ''WORLDCAT_METADATA_API_ACCESS_TOKEN_EXPIRES_AT'' (expires_at tok)]\<rparr>)"
  using assms
  by (auto simp add: renew_access_token_def use_fetch_token_def environ_get_def set_env_var_def Let_def)

lemma api_urls_append: "api_urls (xs @ ys) = api_urls xs @ api_urls ys"
  by (induction xs rule: api_urls.induct) simp_all

lemma renew_trace:
  "\<exists>evs. trace (snd (renew_access_token R w)) = trace w @ evs \<and> api_urls evs = []"
  by (auto simp: renew_access_token_def use_refresh_token_def use_fetch_token_def
      set_env_var_def environ_get_def Let_def split: sum.splits option.splits grant_outcome.splits prod.splits if_splits)

lemma renew_session_env:
  "renew_access_token R w = (Inr tok, w') \<Longrightarrow> session_access_token w' = access_token tok"
  by (auto simp: renew_access_token_def use_refresh_token_def use_fetch_token_def
      set_env_var_def environ_get_def Let_def split: sum.splits option.splits grant_outcome.splits prod.splits if_splits)

lemma call_api_trace:
  "trace (snd (call_api R m u w)) = trace w @ [ApiCall m u (session_access_token w)]"
  by (simp add: call_api_def)

lemma make_api_request_urls:
  "set (api_urls (new_events w (snd (make_api_request R m api_url w)))) =
       {url_with_transaction_id R w api_url}"
proof -
  let ?u = "url_with_transaction_id R w api_url"
  obtain first w1 where c1: "call_api R m ?u w = (first, w1)" by (cases "call_api R m ?u w")
  have t1: "trace w1 = trace w @ [ApiCall m ?u (session_access_token w)]"
    using call_api_trace[of R m ?u w] c1 by simp
  show ?thesis
  proof (cases "first = Expired")
    case False
    then have "snd (make_api_request R m api_url w) = w1"
      using c1 by (cases first) (simp_all add: make_api_request_def finish_request_snd)
    then show ?thesis by (simp add: new_events_def t1)
  next
    case True
    obtain r w2 where rn: "renew_access_token R w1 = (r, w2)" by (cases "renew_access_token R w1")
    obtain evs where t2: "trace w2 = trace w1 @ evs" and nourl: "api_urls evs = []"
      using renew_trace[of R w1] rn by auto
    show ?thesis
    proof (cases r)
      case (Inl e)
      then have "snd (make_api_request R m api_url w) = w2"
        using c1 True rn by (simp add: make_api_request_def)
      then show ?thesis by (simp add: new_events_def t1 t2 api_urls_append nourl)
    next
      case (Inr tok)
      obtain second w3 where c2: "call_api R m ?u w2 = (second, w3)" by (cases "call_api R m ?u w2")
      have t3: "trace w3 = trace w2 @ [ApiCall m ?u (session_access_token w2)]"
        using call_api_trace[of R m ?u w2] c2 by simp
      have "snd (make_api_request R m api_url w) = w3"
        using c1 True rn Inr c2 by (simp add: make_api_request_def finish_request_snd)
      then show ?thesis by (simp add: new_events_def t1 t2 t3 api_urls_append nourl)
    qed
  qed
qed

lemma get_transaction_id_eq:
  "get_transaction_id R w =
     (if environ w ''OCLC_INSTITUTION_SYMBOL'' = None
         \<and> environ w ''WORLDCAT_PRINCIPAL_ID'' = None
      then []
      else (case environ w ''OCLC_INSTITUTION_SYMBOL'' of
              None \<Rightarrow> []
            | Some s \<Rightarrow> if s = [] then [] else s @ ''_'')
           @ gmtime_stamp R (trace w)
           @ (case environ w ''WORLDCAT_PRINCIPAL_ID'' of
                None \<Rightarrow> []
              | Some p \<Rightarrow> ''_'' @ p))"
  by (simp add: get_transaction_id_def in_environ_def getenv_def Let_def split: option.splits)

text \<open>The renewal and the replay, in terms of the seconds the refresh token has left.\<close>

lemma token_renewal_with_remaining:
  assumes expired: "call_api R m (url_with_transaction_id R w api_url) w = (Expired, w1)"
    and url: "environ w ''OCLC_AUTHORIZATION_SERVER_TOKEN_URL'' = Some token_url"
    and remaining: "refresh_token_expires_in R w1 = Inr remaining"
    and grant:
      "if in_environ ''WORLDCAT_METADATA_API_REFRESH_TOKEN'' (environ w) \<and> remaining > 25
       then refresh_reply R (trace w1) token_url
              (environ w ''WORLDCAT_METADATA_API_REFRESH_TOKEN'') = Granted tok
       else fetch_reply R (trace w1) token_url = Granted tok
            \<and> refresh_token tok = Some rt \<and> refresh_token_expires_at tok = Some rte"
  shows
    "new_events w (snd (make_api_request R m api_url w)) =
       [ApiCall m (url_with_transaction_id R w api_url) (session_access_token w)]
       @ (if in_environ ''WORLDCAT_METADATA_API_REFRESH_TOKEN'' (environ w) \<and> remaining > 25
          then [RefreshGrant token_url (environ w ''WORLDCAT_METADATA_API_REFRESH_TOKEN'')]
          else [FetchGrant token_url,
                SetEnvVar ''WORLDCAT_METADATA_API_REFRESH_TOKEN'' rt,
                SetEnvVar ''WORLDCAT_METADATA_API_REFRESH_TOKEN_EXPIRES_AT'' rte])
       @ [SetEnvVar ''WORLDCAT_METADATA_API_ACCESS_TOKEN'' (access_token tok),
          SetEnvVar ''WORLDCAT_METADATA_API_ACCESS_TOKEN_TYPE'' (token_type tok),
          SetEnvVar ''WORLDCAT_METADATA_API_ACCESS_TOKEN_EXPIRES_AT'' (expires_at tok),
          ApiCall m (url_with_transaction_id R w api_url) (access_token tok)]
     \<and> dotenv (snd (make_api_request R m api_url w)) =
       (if in_environ ''WORLDCAT_METADATA_API_REFRESH_TOKEN'' (environ w) \<and> remaining > 25
        then dotenv w
        else (dotenv w)(''WORLDCAT_METADATA_API_REFRESH_TOKEN'' \<mapsto> rt,
                        ''WORLDCAT_METADATA_API_REFRESH_TOKEN_EXPIRES_AT'' \<mapsto> rte))
         (''WORLDCAT_METADATA_API_ACCESS_TOKEN'' \<mapsto> access_token tok,
          ''WORLDCAT_METADATA_API_ACCESS_TOKEN_TYPE'' \<mapsto> token_type tok,
          ''WORLDCAT_METADATA_API_ACCESS_TOKEN_EXPIRES_AT'' \<mapsto> expires_at tok)
     \<and> fst (make_api_request R m api_url w) =
       (case api_reply R (butlast (trace (snd (make_api_request R m api_url w)))) m
               (url_with_transaction_id R w api_url) (access_token tok) of
          Reply r \<Rightarrow> log_response_and_raise_for_status r
        | Expired \<Rightarrow> Inl TokenExpiredError
        | Raises e \<Rightarrow> Inl e)"
proof -
  let ?u = "url_with_transaction_id R w api_url"
  let ?c = "in_environ ''WORLDCAT_METADATA_API_REFRESH_TOKEN'' (environ w) \<and> remaining > 25"
  note f1 = call_api_fields[OF expired]
  have env1: "environ w1 = environ w" and dot1: "dotenv w1 = dotenv w"
    and t1: "trace w1 = trace w @ [ApiCall m ?u (session_access_token w)]"
    using f1 by simp_all
  obtain w2 where rn: "renew_access_token R w1 = (Inr tok, w2)"
    and t2: "trace w2 = trace w1 @
       (if ?c then [RefreshGrant token_url (environ w ''WORLDCAT_METADATA_API_REFRESH_TOKEN'')]
        else [FetchGrant token_url,
              SetEnvVar ''WORLDCAT_METADATA_API_REFRESH_TOKEN'' rt,
              SetEnvVar ''WORLDCAT_METADATA_API_REFRESH_TOKEN_EXPIRES_AT'' rte])
       @ [SetEnvVar ''WORLDCAT_METADATA_API_ACCESS_TOKEN'' (access_token tok),
          SetEnvVar ''WORLDCAT_METADATA_API_ACCESS_TOKEN_TYPE'' (token_type tok),
          SetEnvVar ''WORLDCAT_METADATA_API_ACCESS_TOKEN_EXPIRES_AT'' (expires_at tok)]"
    and d2: "dotenv w2 =
       (if ?c then dotenv w
        else (dotenv w)(''WORLDCAT_METADATA_API_REFRESH_TOKEN'' \<mapsto> rt,
                        ''WORLDCAT_METADATA_API_REFRESH_TOKEN_EXPIRES_AT'' \<mapsto> rte))
         (''WORLDCAT_METADATA_API_ACCESS_TOKEN'' \<mapsto> access_token tok,
          ''WORLDCAT_METADATA_API_ACCESS_TOKEN_TYPE'' \<mapsto> token_type tok,
          ''WORLDCAT_METADATA_API_ACCESS_TOKEN_EXPIRES_AT'' \<mapsto> expires_at tok)"
    and s2: "session_access_token w2 = access_token tok"
  proof (cases ?c)
    case True
    with grant have g: "refresh_reply R (trace w1) token_url
        (environ w1 ''WORLDCAT_METADATA_API_REFRESH_TOKEN'') = Granted tok"
      by (simp add: env1)
    from True have c1: "in_environ ''WORLDCAT_METADATA_API_REFRESH_TOKEN'' (environ w1) \<and> remaining > 25"
      by (simp add: env1)
    from url have u1: "environ w1 ''OCLC_AUTHORIZATION_SERVER_TOKEN_URL'' = Some token_url"
      by (simp add: env1)
    show ?thesis
      using that renew_refresh[OF u1 remaining c1 g] True by (simp add: env1 dot1)
  next
    case False
    with grant have g: "fetch_reply R (trace w1) token_url = Granted tok"
      and r1: "refresh_token tok = Some rt" and r2: "refresh_token_expires_at tok = Some rte"
      by simp_all
    from False have c1: "\<not> (in_environ ''WORLDCAT_METADATA_API_REFRESH_TOKEN'' (environ w1) \<and> remaining > 25)"
      by (simp add: env1)
    from url have u1: "environ w1 ''OCLC_AUTHORIZATION_SERVER_TOKEN_URL'' = Some token_url"
      by (simp add: env1)
    show ?thesis
      using that renew_fetch[OF u1 remaining c1 g r1 r2] False by (simp add: env1 dot1)
  qed
  obtain second w3 where c2: "call_api R m ?u w2 = (second, w3)"
    by (cases "call_api R m ?u w2")
  note f3 = call_api_fields[OF c2]
  have res: "make_api_request R m api_url w = finish_request (second, w3)"
    using expired rn c2 by (simp add: make_api_request_def)
  then have w3: "snd (make_api_request R m api_url w) = w3"
    by (simp add: finish_request_snd)
  have t3: "trace w3 = trace w2 @ [ApiCall m ?u (access_token tok)]"
    using f3 s2 by simp
  have sec: "second = api_reply R (trace w2) m ?u (access_token tok)"
    using f3 s2 by simp
  have A: "new_events w w3 =
       [ApiCall m ?u (session_access_token w)]
       @ (if ?c
          then [RefreshGrant token_url (environ w ''WORLDCAT_METADATA_API_REFRESH_TOKEN'')]
          else [FetchGrant token_url,
                SetEnvVar ''WORLDCAT_METADATA_API_REFRESH_TOKEN'' rt,
                SetEnvVar ''WORLDCAT_METADATA_API_REFRESH_TOKEN_EXPIRES_AT'' rte])
       @ [SetEnvVar ''WORLDCAT_METADATA_API_ACCESS_TOKEN'' (access_token tok),
          SetEnvVar ''WORLDCAT_METADATA_API_ACCESS_TOKEN_TYPE'' (token_type tok),
          SetEnvVar ''WORLDCAT_METADATA_API_ACCESS_TOKEN_EXPIRES_AT'' (expires_at tok),
          ApiCall m ?u (access_token tok)]"
    by (simp add: new_events_def t3 t2 t1)
  have B: "dotenv w3 = dotenv w2" using f3 by simp
  have bl: "butlast (trace w3) = trace w2" using t3 by simp
  have C: "fst (finish_request (second, w3)) =
       (case api_reply R (butlast (trace w3)) m ?u (access_token tok) of
          Reply r \<Rightarrow> log_response_and_raise_for_status r
        | Expired \<Rightarrow> Inl TokenExpiredError
        | Raises e \<Rightarrow> Inl e)"
    unfolding bl sec[symmetric]
    by (simp add: finish_request_def split: api_outcome.splits)
  show ?thesis
    unfolding res using A B C d2 by (simp add: finish_request_snd)
qed

section \<open>C1: token renewal\<close>

text \<open>
  Claim C1. When the API request fails because the access token has expired, the client
  renews through the refresh-token grant exactly when a refresh token is configured and
  its remaining lifetime is strictly greater than 25 seconds, where the remaining
  lifetime is the stored expiry of the refresh token (zero when none is stored) minus the
  clock; otherwise it performs the full client-credentials grant and stores the refresh
  token it is granted and that token's expiry. On both paths it stores the new access
  token, the token type and the access token's expiry, and then sends the same request
  once more, with the new token; the outcome of that second request is the outcome of
  the call. (Stated for a renewal that succeeds: the token URL is configured, the stored
  expiry parses, and the authorization server grants the token.)
\<close>

theorem C1_token_renewal:
  assumes expired: "call_api R m (url_with_transaction_id R w api_url) w = (Expired, w1)"
    and url: "environ w ''OCLC_AUTHORIZATION_SERVER_TOKEN_URL'' = Some token_url"
    and expiry:
      "case environ w ''WORLDCAT_METADATA_API_REFRESH_TOKEN_EXPIRES_AT'' of
         None \<Rightarrow> refresh_token_expiry = 0
       | Some s \<Rightarrow> timegm_strptime R s = Inr refresh_token_expiry"
    and grant:
      "if in_environ ''WORLDCAT_METADATA_API_REFRESH_TOKEN'' (environ w)
          \<and> real_of_int refresh_token_expiry - time_now R (trace w1) > 25
       then refresh_reply R (trace w1) token_url
              (environ w ''WORLDCAT_METADATA_API_REFRESH_TOKEN'') = Granted tok
       else fetch_reply R (trace w1) token_url = Granted tok
            \<and> refresh_token tok = Some rt \<and> refresh_token_expires_at tok = Some rte"
  shows
    "new_events w (snd (make_api_request R m api_url w)) =
       [ApiCall m (url_with_transaction_id R w api_url) (session_access_token w)]
       @ (if in_environ ''WORLDCAT_METADATA_API_REFRESH_TOKEN'' (environ w)
             \<and> real_of_int refresh_token_expiry - time_now R (trace w1) > 25
          then [RefreshGrant token_url (environ w ''WORLDCAT_METADATA_API_REFRESH_TOKEN'')]
          else [FetchGrant token_url,
                SetEnvVar ''WORLDCAT_METADATA_API_REFRESH_TOKEN'' rt,
                SetEnvVar ''WORLDCAT_METADATA_API_REFRESH_TOKEN_EXPIRES_AT'' rte])
       @ [SetEnvVar ''WORLDCAT_METADATA_API_ACCESS_TOKEN'' (access_token tok),
          SetEnvVar ''WORLDCAT_METADATA_API_ACCESS_TOKEN_TYPE'' (token_type tok),
          SetEnvVar ''WORLDCAT_METADATA_API_ACCESS_TOKEN_EXPIRES_AT'' (expires_at tok),
          ApiCall m (url_with_transaction_id R w api_url) (access_token tok)]
     \<and> dotenv (snd (make_api_request R m api_url w)) =
       (if in_environ ''WORLDCAT_METADATA_API_REFRESH_TOKEN'' (environ w)
           \<and> real_of_int refresh_token_expiry - time_now R (trace w1) > 25
        then dotenv w
        else (dotenv w)(''WORLDCAT_METADATA_API_REFRESH_TOKEN'' \<mapsto> rt,
                        ''WORLDCAT_METADATA_API_REFRESH_TOKEN_EXPIRES_AT'' \<mapsto> rte))
         (''WORLDCAT_METADATA_API_ACCESS_TOKEN'' \<mapsto> access_token tok,
          ''WORLDCAT_METADATA_API_ACCESS_TOKEN_TYPE'' \<mapsto> token_type tok,
          ''WORLDCAT_METADATA_API_ACCESS_TOKEN_EXPIRES_AT'' \<mapsto> expires_at tok)
     \<and> fst (make_api_request R m api_url w) =
       (case api_reply R (butlast (trace (snd (make_api_request R m api_url w)))) m
               (url_with_transaction_id R w api_url) (access_token tok) of
          Reply r \<Rightarrow> log_response_and_raise_for_status r
        | Expired \<Rightarrow> Inl TokenExpiredError
        | Raises e \<Rightarrow> Inl e)"
proof -
  have env1: "environ w1 = environ w"
    using call_api_fields[OF expired] by simp
  have remaining: "refresh_token_expires_in R w1
      = Inr (real_of_int refresh_token_expiry - time_now R (trace w1))"
    using expiry by (simp add: refresh_token_expires_in_def env1 split: option.splits)
  show ?thesis
    by (rule token_renewal_with_remaining[OF expired url remaining grant])
qed

lemmas demo_defs = scripted_def demo_world_def ok_response_def error_response_def demo_token_def
  call_api_def url_with_transaction_id_def get_transaction_id_def in_environ_def getenv_def
  refresh_token_expires_in_def

text \<open>
  With the expiry stored as 2021-10-07 22:43:07Z (1633646587 seconds): at the clock
  1633646561 the refresh token has 26 seconds left and is used; at 1633646562 it has 25
  seconds left and the full grant is made; with the expiry stored but no refresh token,
  the full grant is made whatever the clock.
\<close>

theorem C1_token_renewal_witness:
  "new_events
      (demo_world [(''WORLDCAT_METADATA_API_REFRESH_TOKEN'', ''rt_old''),
                   (''WORLDCAT_METADATA_API_REFRESH_TOKEN_EXPIRES_AT'', ''2021-10-07 22:43:07Z'')])
      (snd (make_api_request
              (scripted [Expired, ok_response (SearchBody 1 [''42''])] (Granted demo_token)
                 1633646561)
              GET ''u''
              (demo_world [(''WORLDCAT_METADATA_API_REFRESH_TOKEN'', ''rt_old''),
                   (''WORLDCAT_METADATA_API_REFRESH_TOKEN_EXPIRES_AT'', ''2021-10-07 22:43:07Z'')])))
     = [ApiCall GET ''u'' ''tk_old'',
        RefreshGrant ''https://oauth'' (Some ''rt_old''),
        SetEnvVar ''WORLDCAT_METADATA_API_ACCESS_TOKEN'' ''tk_new'',
        SetEnvVar ''WORLDCAT_METADATA_API_ACCESS_TOKEN_TYPE'' ''bearer'',
        SetEnvVar ''WORLDCAT_METADATA_API_ACCESS_TOKEN_EXPIRES_AT'' ''1633042987.0'',
        ApiCall GET ''u'' ''tk_new'']
   \<and> new_events
      (demo_world [(''WORLDCAT_METADATA_API_REFRESH_TOKEN'', ''rt_old''),
                   (''WORLDCAT_METADATA_API_REFRESH_TOKEN_EXPIRES_AT'', ''2021-10-07 22:43:07Z'')])
      (snd (make_api_request
              (scripted [Expired, ok_response (SearchBody 1 [''42''])] (Granted demo_token)
                 1633646562)
              GET ''u''
              (demo_world [(''WORLDCAT_METADATA_API_REFRESH_TOKEN'', ''rt_old''),
                   (''WORLDCAT_METADATA_API_REFRESH_TOKEN_EXPIRES_AT'', ''2021-10-07 22:43:07Z'')])))
     = [ApiCall GET ''u'' ''tk_old'',
        FetchGrant ''https://oauth'',
        SetEnvVar ''WORLDCAT_METADATA_API_REFRESH_TOKEN'' ''rt_new'',
        SetEnvVar ''WORLDCAT_METADATA_API_REFRESH_TOKEN_EXPIRES_AT'' ''2021-10-07 22:43:07Z'',
        SetEnvVar ''WORLDCAT_METADATA_API_ACCESS_TOKEN'' ''tk_new'',
        SetEnvVar ''WORLDCAT_METADATA_API_ACCESS_TOKEN_TYPE'' ''bearer'',
        SetEnvVar ''WORLDCAT_METADATA_API_ACCESS_TOKEN_EXPIRES_AT'' ''1633042987.0'',
        ApiCall GET ''u'' ''tk_new'']
   \<and> new_events
      (demo_world [(''WORLDCAT_METADATA_API_REFRESH_TOKEN_EXPIRES_AT'', ''2021-10-07 22:43:07Z'')])
      (snd (make_api_request
              (scripted [Expired, ok_response (SearchBody 1 [''42''])] (Granted demo_token)
                 1633646561)
              GET ''u''
              (demo_world
                 [(''WORLDCAT_METADATA_API_REFRESH_TOKEN_EXPIRES_AT'', ''2021-10-07 22:43:07Z'')])))
     = [ApiCall GET ''u'' ''tk_old'',
        FetchGrant ''https://oauth'',
        SetEnvVar ''WORLDCAT_METADATA_API_REFRESH_TOKEN'' ''rt_new'',
        SetEnvVar ''WORLDCAT_METADATA_API_REFRESH_TOKEN_EXPIRES_AT'' ''2021-10-07 22:43:07Z'',
        SetEnvVar ''WORLDCAT_METADATA_API_ACCESS_TOKEN'' ''tk_new'',
        SetEnvVar ''WORLDCAT_METADATA_API_ACCESS_TOKEN_TYPE'' ''bearer'',
        SetEnvVar ''WORLDCAT_METADATA_API_ACCESS_TOKEN_EXPIRES_AT'' ''1633042987.0'',
        ApiCall GET ''u'' ''tk_new'']"
proof -
  let ?w = "demo_world [(''WORLDCAT_METADATA_API_REFRESH_TOKEN'', ''rt_old''),
                   (''WORLDCAT_METADATA_API_REFRESH_TOKEN_EXPIRES_AT'', ''2021-10-07 22:43:07Z'')]"
  let ?v = "demo_world
              [(''WORLDCAT_METADATA_API_REFRESH_TOKEN_EXPIRES_AT'', ''2021-10-07 22:43:07Z'')]"
  let ?w1 = "?w\<lparr>trace := [ApiCall GET ''u'' ''tk_old'']\<rparr>"
  let ?v1 = "?v\<lparr>trace := [ApiCall GET ''u'' ''tk_old'']\<rparr>"
  let ?Ra = "scripted [Expired, ok_response (SearchBody 1 [''42''])] (Granted demo_token) 1633646561"
  let ?Rb = "scripted [Expired, ok_response (SearchBody 1 [''42''])] (Granted demo_token) 1633646562"
  have u: "environ ?w ''OCLC_AUTHORIZATION_SERVER_TOKEN_URL'' = Some ''https://oauth''"
    by (simp add: demo_defs)
  have uv: "environ ?v ''OCLC_AUTHORIZATION_SERVER_TOKEN_URL'' = Some ''https://oauth''"
    by (simp add: demo_defs)
  have ia: "in_environ ''WORLDCAT_METADATA_API_REFRESH_TOKEN'' (environ ?w)"
    by (simp add: demo_defs)
  have iv: "\<not> in_environ ''WORLDCAT_METADATA_API_REFRESH_TOKEN'' (environ ?v)"
    by (simp add: demo_defs)
  have ea: "call_api ?Ra GET (url_with_transaction_id ?Ra ?w ''u'') ?w = (Expired, ?w1)"
    by (simp add: demo_defs)
  have xa: "case environ ?w ''WORLDCAT_METADATA_API_REFRESH_TOKEN_EXPIRES_AT'' of
         None \<Rightarrow> (1633646587::int) = 0
       | Some s \<Rightarrow> timegm_strptime ?Ra s = Inr 1633646587"
    by (simp add: demo_defs)
  have ga: "if in_environ ''WORLDCAT_METADATA_API_REFRESH_TOKEN'' (environ ?w)
          \<and> real_of_int 1633646587 - time_now ?Ra (trace ?w1) > 25
       then refresh_reply ?Ra (trace ?w1) ''https://oauth''
              (environ ?w ''WORLDCAT_METADATA_API_REFRESH_TOKEN'') = Granted demo_token
       else fetch_reply ?Ra (trace ?w1) ''https://oauth'' = Granted demo_token
            \<and> refresh_token demo_token = Some ''rt_new''
            \<and> refresh_token_expires_at demo_token = Some ''2021-10-07 22:43:07Z''"
    by (simp add: demo_defs)
  have eb: "call_api ?Rb GET (url_with_transaction_id ?Rb ?w ''u'') ?w = (Expired, ?w1)"
    by (simp add: demo_defs)
  have xb: "case environ ?w ''WORLDCAT_METADATA_API_REFRESH_TOKEN_EXPIRES_AT'' of
         None \<Rightarrow> (1633646587::int) = 0
       | Some s \<Rightarrow> timegm_strptime ?Rb s = Inr 1633646587"
    by (simp add: demo_defs)
  have gb: "if in_environ ''WORLDCAT_METADATA_API_REFRESH_TOKEN'' (environ ?w)
          \<and> real_of_int 1633646587 - time_now ?Rb (trace ?w1) > 25
       then refresh_reply ?Rb (trace ?w1) ''https://oauth''
              (environ ?w ''WORLDCAT_METADATA_API_REFRESH_TOKEN'') = Granted demo_token
       else fetch_reply ?Rb (trace ?w1) ''https://oauth'' = Granted demo_token
            \<and> refresh_token demo_token = Some ''rt_new''
            \<and> refresh_token_expires_at demo_token = Some ''2021-10-07 22:43:07Z''"
    by (simp add: demo_defs)
  have ev: "call_api ?Ra GET (url_with_transaction_id ?Ra ?v ''u'') ?v = (Expired, ?v1)"
    by (simp add: demo_defs)
  have xv: "case environ ?v ''WORLDCAT_METADATA_API_REFRESH_TOKEN_EXPIRES_AT'' of
         None \<Rightarrow> (1633646587::int) = 0
       | Some s \<Rightarrow> timegm_strptime ?Ra s = Inr 1633646587"
    by (simp add: demo_defs)
  have gv: "if in_environ ''WORLDCAT_METADATA_API_REFRESH_TOKEN'' (environ ?v)
          \<and> real_of_int 1633646587 - time_now ?Ra (trace ?v1) > 25
       then refresh_reply ?Ra (trace ?v1) ''https://oauth''
              (environ ?v ''WORLDCAT_METADATA_API_REFRESH_TOKEN'') = Granted demo_token
       else fetch_reply ?Ra (trace ?v1) ''https://oauth'' = Granted demo_token
            \<and> refresh_token demo_token = Some ''rt_new''
            \<and> refresh_token_expires_at demo_token = Some ''2021-10-07 22:43:07Z''"
    by (simp add: demo_defs)
  have ta: "time_now ?Ra (trace ?w1) = 1633646561" "time_now ?Rb (trace ?w1) = 1633646562"
    "time_now ?Ra (trace ?v1) = 1633646561"
    by (simp_all add: scripted_def)
  have ua: "url_with_transaction_id ?Ra ?w ''u'' = ''u''" by (simp add: demo_defs)
  have ub: "url_with_transaction_id ?Rb ?w ''u'' = ''u''" by (simp add: demo_defs)
  have uc: "url_with_transaction_id ?Ra ?v ''u'' = ''u''" by (simp add: demo_defs)
  have sw: "session_access_token ?w = ''tk_old''" "session_access_token ?v = ''tk_old''"
    by (simp_all add: demo_defs)
  have ew: "environ ?w ''WORLDCAT_METADATA_API_REFRESH_TOKEN'' = Some ''rt_old''"
    by (simp add: demo_defs)
  show ?thesis
    using C1_token_renewal[OF ea u xa ga] C1_token_renewal[OF eb u xb gb]
      C1_token_renewal[OF ev uv xv gv] ia iv
    unfolding ua ub uc sw ew ta
    by (simp add: demo_token_def)
qed

section \<open>C6: the precondition of add\<close>

text \<open>
  Claim C6. \<open>add\<close> fails with an assertion error exactly when the item is already in
  the buffer (holdings check: the identifier is a key of the dictionary; set/unset: the
  identifier is a member of the set) or, for the search buffer, when the buffer is not
  empty; otherwise it succeeds. A failing \<open>add\<close> leaves the buffer as it was, and on
  the search buffer an \<open>add\<close> that follows a successful \<open>add\<close> with no clear in
  between always fails.
\<close>

theorem C6_add_precondition:
  "((\<exists>m. fst (alma_add k v a) = Inl (AssertionError m)) \<longleftrightarrow> k \<in> fst ` set (oclc_num_dict a))
   \<and> (fst (alma_add k v a) = Inr () \<longleftrightarrow> k \<notin> fst ` set (oclc_num_dict a))
   \<and> (fst (alma_add k v a) \<noteq> Inr () \<longrightarrow> snd (alma_add k v a) = a)
   \<and> ((\<exists>m. fst (wc_add k c) = Inl (AssertionError m)) \<longleftrightarrow> k \<in> oclc_num_set c)
   \<and> (fst (wc_add k c) = Inr () \<longleftrightarrow> k \<notin> oclc_num_set c)
   \<and> (fst (wc_add k c) \<noteq> Inr () \<longrightarrow> snd (wc_add k c) = c)
   \<and> ((\<exists>m. fst (search_add r b) = Inl (AssertionError m)) \<longleftrightarrow> record_list b \<noteq> [])
   \<and> (fst (search_add r b) = Inr () \<longleftrightarrow> record_list b = [])
   \<and> (fst (search_add r b) \<noteq> Inr () \<longrightarrow> snd (search_add r b) = b)
   \<and> (fst (search_add r b) = Inr () \<longrightarrow>
        (\<exists>m. search_add r' (snd (search_add r b)) = (Inl (AssertionError m), snd (search_add r b))))"
proof -
  have alma: "map_of (oclc_num_dict a) k = None \<longleftrightarrow> k \<notin> fst ` set (oclc_num_dict a)"
    by (simp add: map_of_eq_None_iff)
  show ?thesis
    using alma by (auto simp: alma_add_def wc_add_def search_add_def split: option.splits)
qed

theorem C6_add_precondition_witness:
  "(\<exists>m. fst (alma_add ''1'' ''m2''
        \<lparr>oclc_num_dict = [(''1'', ''m1'')], records_with_current_oclc_num = [],
         records_with_old_oclc_num = [], alma_records_with_errors = []\<rparr>)
      = Inl (AssertionError m))
   \<and> snd (alma_add ''1'' ''m2''
        \<lparr>oclc_num_dict = [(''1'', ''m1'')], records_with_current_oclc_num = [],
         records_with_old_oclc_num = [], alma_records_with_errors = []\<rparr>)
      = \<lparr>oclc_num_dict = [(''1'', ''m1'')], records_with_current_oclc_num = [],
         records_with_old_oclc_num = [], alma_records_with_errors = []\<rparr>
   \<and> (\<exists>m. fst (wc_add ''1''
        \<lparr>oclc_num_set = {''1''}, set_or_unset_choice = ''set'', cascade = ''0'',
         records_with_no_update_needed = [], records_updated = [],
         wc_records_with_errors = []\<rparr>)
      = Inl (AssertionError m))
   \<and> fst (search_add (0, demo_row ''991'' ''n79021164'')
        \<lparr>record_list = [], dataframe_for_input_file = [demo_row ''991'' ''n79021164'']\<rparr>)
      = Inr ()
   \<and> (\<exists>m. search_add (0, demo_row ''991'' ''n79021164'')
        (snd (search_add (0, demo_row ''991'' ''n79021164'')
           \<lparr>record_list = [], dataframe_for_input_file = [demo_row ''991'' ''n79021164'']\<rparr>))
      = (Inl (AssertionError m),
         snd (search_add (0, demo_row ''991'' ''n79021164'')
           \<lparr>record_list = [], dataframe_for_input_file = [demo_row ''991'' ''n79021164'']\<rparr>)))"
  using C6_add_precondition[of "''1''" "''m2''"
      "\<lparr>oclc_num_dict = [(''1'', ''m1'')], records_with_current_oclc_num = [],
         records_with_old_oclc_num = [], alma_records_with_errors = []\<rparr>"
      "\<lparr>oclc_num_set = {''1''}, set_or_unset_choice = ''set'', cascade = ''0'',
         records_with_no_update_needed = [], records_updated = [],
         wc_records_with_errors = []\<rparr>"
      "(0, demo_row ''991'' ''n79021164'')"
      "\<lparr>record_list = [], dataframe_for_input_file = [demo_row ''991'' ''n79021164'']\<rparr>"
      "(0, demo_row ''991'' ''n79021164'')"]
  by simp

section \<open>C9: the transaction id\<close>

text \<open>
  Claim C9, as amended. For every environment, the transaction id is the empty string
  when neither the institution symbol nor the principal id is set. Otherwise it is the
  UTC timestamp, preceded by the institution symbol and an underscore when the symbol is
  set and not empty, and followed by an underscore and the principal id when the
  principal id is set (an empty principal id leaves the underscore). Every API request
  that \<open>make_api_request\<close> sends goes to the URL with \<open>&transactionID=\<close> and the id
  attached when the id is not empty, and to the URL as given when it is empty.
\<close>

theorem C9_transaction_id:
  "get_transaction_id R w =
     (if environ w ''OCLC_INSTITUTION_SYMBOL'' = None
         \<and> environ w ''WORLDCAT_PRINCIPAL_ID'' = None
      then []
      else (case environ w ''OCLC_INSTITUTION_SYMBOL'' of
              None \<Rightarrow> []
            | Some s \<Rightarrow> if s = [] then [] else s @ ''_'')
           @ gmtime_stamp R (trace w)
           @ (case environ w ''WORLDCAT_PRINCIPAL_ID'' of
                None \<Rightarrow> []
              | Some p \<Rightarrow> ''_'' @ p))
   \<and> set (api_urls (new_events w (snd (make_api_request R m api_url w)))) =
       {if get_transaction_id R w = [] then api_url
        else api_url @ ''&transactionID='' @ get_transaction_id R w}"
proof -
  have "url_with_transaction_id R w api_url =
       (if get_transaction_id R w = [] then api_url
        else api_url @ ''&transactionID='' @ get_transaction_id R w)"
    by (simp add: url_with_transaction_id_def Let_def)
  then show ?thesis
    using get_transaction_id_eq[of R w] make_api_request_urls[of w R m api_url] by simp
qed

theorem C9_transaction_id_witness:
  "get_transaction_id (scripted [] (Granted demo_token) 0)
      (demo_world [(''OCLC_INSTITUTION_SYMBOL'', ''ABC''), (''WORLDCAT_PRINCIPAL_ID'', ''p1'')])
     = ''ABC_2021-09-30T22:43:07Z_p1''
   \<and> get_transaction_id (scripted [] (Granted demo_token) 0)
      (demo_world [(''WORLDCAT_PRINCIPAL_ID'', ''p1'')])
     = ''2021-09-30T22:43:07Z_p1''
   \<and> get_transaction_id (scripted [] (Granted demo_token) 0)
      (demo_world [(''OCLC_INSTITUTION_SYMBOL'', ''ABC'')])
     = ''ABC_2021-09-30T22:43:07Z''
   \<and> get_transaction_id (scripted [] (Granted demo_token) 0) (demo_world []) = []
   \<and> set (api_urls (new_events (demo_world [(''OCLC_INSTITUTION_SYMBOL'', ''ABC'')])
        (snd (make_api_request (scripted [] (Granted demo_token) 0) GET ''u?q=1''
                (demo_world [(''OCLC_INSTITUTION_SYMBOL'', ''ABC'')])))))
     = {''u?q=1&transactionID=ABC_2021-09-30T22:43:07Z''}
   \<and> set (api_urls (new_events (demo_world [])
        (snd (make_api_request (scripted [] (Granted demo_token) 0) GET ''u?q=1''
                (demo_world [])))))
     = {''u?q=1''}"
  using C9_transaction_id[of "scripted [] (Granted demo_token) 0"
          "demo_world [(''OCLC_INSTITUTION_SYMBOL'', ''ABC''), (''WORLDCAT_PRINCIPAL_ID'', ''p1'')]"
          GET "''u?q=1''"]
        C9_transaction_id[of "scripted [] (Granted demo_token) 0"
          "demo_world [(''WORLDCAT_PRINCIPAL_ID'', ''p1'')]" GET "''u?q=1''"]
        C9_transaction_id[of "scripted [] (Granted demo_token) 0"
          "demo_world [(''OCLC_INSTITUTION_SYMBOL'', ''ABC'')]" GET "''u?q=1''"]
        C9_transaction_id[of "scripted [] (Granted demo_token) 0"
          "demo_world []" GET "''u?q=1''"]
  by (simp add: scripted_def demo_world_def)

text \<open>
  The claim as first stated fails whichever way "absent" is read. The symbol counts as
  present only when it is set and not empty, the principal id whenever its variable is
  set. With both variables set to the empty string the id is the timestamp followed by
  an underscore: neither the empty string, nor the bare timestamp, nor the timestamp
  between two underscores. With the symbol alone set to the empty string the id is the
  timestamp, not the empty string and not the timestamp after an underscore, and it is
  attached to the URL. With the symbol set and the principal id set to the empty string
  the id ends in an underscore.
\<close>

theorem C9_counterexample:
  "get_transaction_id (scripted [] (Granted demo_token) 0)
      (demo_world [(''OCLC_INSTITUTION_SYMBOL'', []), (''WORLDCAT_PRINCIPAL_ID'', [])])
     = ''2021-09-30T22:43:07Z_''
   \<and> get_transaction_id (scripted [] (Granted demo_token) 0)
      (demo_world [(''OCLC_INSTITUTION_SYMBOL'', [])])
     = ''2021-09-30T22:43:07Z''
   \<and> api_urls (new_events (demo_world [(''OCLC_INSTITUTION_SYMBOL'', [])])
        (snd (make_api_request (scripted [] (Granted demo_token) 0) GET ''u?q=1''
                (demo_world [(''OCLC_INSTITUTION_SYMBOL'', [])]))))
     = [''u?q=1&transactionID=2021-09-30T22:43:07Z'']
   \<and> get_transaction_id (scripted [] (Granted demo_token) 0)
      (demo_world [(''OCLC_INSTITUTION_SYMBOL'', ''ABC''), (''WORLDCAT_PRINCIPAL_ID'', [])])
     = ''ABC_2021-09-30T22:43:07Z_''"
  by (simp add: demo_defs make_api_request_def finish_request_def new_events_def)

section \<open>Facts about the classification loops\<close>

lemma append_rows_Nil: "append_rows h [] f = f"
  by (simp add: append_rows_def)

lemma append_rows_Cons:
  "append_rows h (r # rs) f = append_rows h rs (writerow r (write_header_if_new h f))"
  by (simp add: append_rows_def writerow_def write_header_if_new_def)

lemma wc_rows_eq:
  "wc_new_oclc_num e = wc_new_number e"
  "wc_oclc_num_msg e = wc_warning e"
  "wc_error_msg b = ''Problem with '' @ (if set_or_unset_choice b = ''set'' then ''Set'' else ''Unset'')
        @ '' Holding API response''"
  by (auto simp: wc_new_oclc_num_def wc_new_number_def wc_oclc_num_msg_def wc_warning_def
      wc_error_msg_def wc_api_name_def)

lemma wc_loop:
  assumes "results ''num_records_updated'' = Some c1"
    and "results ''num_records_with_no_update_needed'' = Some c2"
    and "results ''num_records_with_errors'' = Some c3"
  shows "\<exists>results' b'.
      for_each wc_process_entry es (results, b) = (Inr (), (results', b'))
      \<and> results' ''num_records_updated'' = Some (c1 + int (length (wc_updated_entries es)))
      \<and> results' ''num_records_with_no_update_needed''
          = Some (c2 + int (length (wc_no_update_entries es)))
      \<and> results' ''num_records_with_errors'' = Some (c3 + int (length (wc_error_entries es)))
      \<and> records_updated b' =
          append_rows (wc_header ''Warning'') (map wc_updated_row (wc_updated_entries es))
            (records_updated b)
      \<and> records_with_no_update_needed b' =
          append_rows (wc_header ''Error'')
            (map (wc_no_update_row (set_or_unset_choice b)) (wc_no_update_entries es))
            (records_with_no_update_needed b)
      \<and> wc_records_with_errors b' =
          append_rows (wc_header ''Error'')
            (map (wc_error_row (set_or_unset_choice b)) (wc_error_entries es))
            (wc_records_with_errors b)
      \<and> oclc_num_set b' = oclc_num_set b
      \<and> set_or_unset_choice b' = set_or_unset_choice b
      \<and> cascade b' = cascade b"
  using assms
proof (induction es arbitrary: results b c1 c2 c3)
  case Nil
  then show ?case
    by (simp add: wc_updated_entries_def wc_no_update_entries_def wc_error_entries_def
        append_rows_Nil)
next
  case (Cons e es)
  consider (ok) "he_httpStatusCode e = ''HTTP 200 OK''"
    | (conflict) "he_httpStatusCode e = ''HTTP 409 Conflict''"
    | (other) "he_httpStatusCode e \<noteq> ''HTTP 200 OK''" "he_httpStatusCode e \<noteq> ''HTTP 409 Conflict''"
    by blast
  then show ?case
  proof cases
    case ok
    let ?r = "results(''num_records_updated'' \<mapsto> c1 + 1)"
    let ?b = "b\<lparr>records_updated := writerow (wc_updated_row e)
                 (write_header_if_new (wc_header ''Warning'') (records_updated b))\<rparr>"
    have step: "wc_process_entry e (results, b) = (Inr (), (?r, ?b))"
      using ok Cons.prems
      by (simp add: wc_process_entry_def increment_def wc_rows_eq wc_updated_row_def wc_header_def)
    have k: "?r ''num_records_updated'' = Some (c1 + 1)"
      "?r ''num_records_with_no_update_needed'' = Some c2"
      "?r ''num_records_with_errors'' = Some c3"
      using Cons.prems by simp_all
    from Cons.IH[OF k, of ?b] obtain results' b' where
      ih: "for_each wc_process_entry es (?r, ?b) = (Inr (), (results', b'))"
        "results' ''num_records_updated'' = Some (c1 + 1 + int (length (wc_updated_entries es)))"
        "results' ''num_records_with_no_update_needed''
          = Some (c2 + int (length (wc_no_update_entries es)))"
        "results' ''num_records_with_errors'' = Some (c3 + int (length (wc_error_entries es)))"
        "records_updated b' =
          append_rows (wc_header ''Warning'') (map wc_updated_row (wc_updated_entries es))
            (records_updated ?b)"
        "records_with_no_update_needed b' =
          append_rows (wc_header ''Error'')
            (map (wc_no_update_row (set_or_unset_choice ?b)) (wc_no_update_entries es))
            (records_with_no_update_needed ?b)"
        "wc_records_with_errors b' =
          append_rows (wc_header ''Error'')
            (map (wc_error_row (set_or_unset_choice ?b)) (wc_error_entries es))
            (wc_records_with_errors ?b)"
        "oclc_num_set b' = oclc_num_set ?b"
        "set_or_unset_choice b' = set_or_unset_choice ?b"
        "cascade b' = cascade ?b"
      by blast
    show ?thesis
      using ih ok step
      by (simp add: wc_updated_entries_def wc_no_update_entries_def wc_error_entries_def
          append_rows_Cons)
  next
    case conflict
    let ?r = "results(''num_records_with_no_update_needed'' \<mapsto> c2 + 1)"
    let ?b = "b\<lparr>records_with_no_update_needed :=
                 writerow (wc_no_update_row (set_or_unset_choice b) e)
                 (write_header_if_new (wc_header ''Error'') (records_with_no_update_needed b))\<rparr>"
    have step: "wc_process_entry e (results, b) = (Inr (), (?r, ?b))"
      using conflict Cons.prems
      by (simp add: wc_process_entry_def increment_def wc_rows_eq wc_no_update_row_def wc_header_def)
    have k: "?r ''num_records_updated'' = Some c1"
      "?r ''num_records_with_no_update_needed'' = Some (c2 + 1)"
      "?r ''num_records_with_errors'' = Some c3"
      using Cons.prems by simp_all
    from Cons.IH[OF k, of ?b] obtain results' b' where
      ih: "for_each wc_process_entry es (?r, ?b) = (Inr (), (results', b'))"
        "results' ''num_records_updated'' = Some (c1 + int (length (wc_updated_entries es)))"
        "results' ''num_records_with_no_update_needed''
          = Some (c2 + 1 + int (length (wc_no_update_entries es)))"
        "results' ''num_records_with_errors'' = Some (c3 + int (length (wc_error_entries es)))"
        "records_updated b' =
          append_rows (wc_header ''Warning'') (map wc_updated_row (wc_updated_entries es))
            (records_updated ?b)"
        "records_with_no_update_needed b' =
          append_rows (wc_header ''Error'')
            (map (wc_no_update_row (set_or_unset_choice ?b)) (wc_no_update_entries es))
            (records_with_no_update_needed ?b)"
        "wc_records_with_errors b' =
          append_rows (wc_header ''Error'')
            (map (wc_error_row (set_or_unset_choice ?b)) (wc_error_entries es))
            (wc_records_with_errors ?b)"
        "oclc_num_set b' = oclc_num_set ?b"
        "set_or_unset_choice b' = set_or_unset_choice ?b"
        "cascade b' = cascade ?b"
      by blast
    show ?thesis
      using ih conflict step
      by (simp add: wc_updated_entries_def wc_no_update_entries_def wc_error_entries_def
          append_rows_Cons)
  next
    case other
    let ?r = "results(''num_records_with_errors'' \<mapsto> c3 + 1)"
    let ?b = "b\<lparr>wc_records_with_errors :=
                 writerow (wc_error_row (set_or_unset_choice b) e)
                 (write_header_if_new (wc_header ''Error'') (wc_records_with_errors b))\<rparr>"
    have step: "wc_process_entry e (results, b) = (Inr (), (?r, ?b))"
      using other Cons.prems
      by (simp add: wc_process_entry_def increment_def wc_rows_eq wc_error_row_def wc_header_def)
    have k: "?r ''num_records_updated'' = Some c1"
      "?r ''num_records_with_no_update_needed'' = Some c2"
      "?r ''num_records_with_errors'' = Some (c3 + 1)"
      using Cons.prems by simp_all
    from Cons.IH[OF k, of ?b] obtain results' b' where
      ih: "for_each wc_process_entry es (?r, ?b) = (Inr (), (results', b'))"
        "results' ''num_records_updated'' = Some (c1 + int (length (wc_updated_entries es)))"
        "results' ''num_records_with_no_update_needed''
          = Some (c2 + int (length (wc_no_update_entries es)))"
        "results' ''num_records_with_errors'' = Some (c3 + 1 + int (length (wc_error_entries es)))"
        "records_updated b' =
          append_rows (wc_header ''Warning'') (map wc_updated_row (wc_updated_entries es))
            (records_updated ?b)"
        "records_with_no_update_needed b' =
          append_rows (wc_header ''Error'')
            (map (wc_no_update_row (set_or_unset_choice ?b)) (wc_no_update_entries es))
            (records_with_no_update_needed ?b)"
        "wc_records_with_errors b' =
          append_rows (wc_header ''Error'')
            (map (wc_error_row (set_or_unset_choice ?b)) (wc_error_entries es))
            (wc_records_with_errors ?b)"
        "oclc_num_set b' = oclc_num_set ?b"
        "set_or_unset_choice b' = set_or_unset_choice ?b"
        "cascade b' = cascade ?b"
      by blast
    show ?thesis
      using ih other step
      by (simp add: wc_updated_entries_def wc_no_update_entries_def wc_error_entries_def
          append_rows_Cons)
  qed
qed

section \<open>C4: classification of set/unset responses\<close>

text \<open>
  Claim C4. For every batch of the set/unset-holding buffer whose response decodes to a
  list of entries, the entries are classified in the order of the response, each by its
  \<open>httpStatusCode\<close>: \<open>HTTP 200 OK\<close> writes the identifier to the Updated file, with a
  warning exactly when the entry's current identifier differs from the requested one;
  \<open>HTTP 409 Conflict\<close> writes it to the NoUpdateNeeded file with the conflict detail;
  any other status writes it to the Error file with the status and the detail. Each file
  receives its rows in response order (after the header, if the file was empty), each
  counter grows by the number of its rows, and every entry is in exactly one of the
  three groups.
\<close>

theorem C4_set_unset_classification:
  assumes url: "environ w ''WORLDCAT_METADATA_API_URL'' = Some base"
    and reply: "make_api_request R (fst (wc_request R base b)) (snd (wc_request R base b)) w
                  = (Inr api_response, w1)"
    and entries: "body api_response = HoldingBody es"
    and c1: "results ''num_records_updated'' = Some c1"
    and c2: "results ''num_records_with_no_update_needed'' = Some c2"
    and c3: "results ''num_records_with_errors'' = Some c3"
  shows "\<exists>results' b'.
      wc_process_records R (w, results, b) = (Inr (), (w1, results', b'))
      \<and> records_updated b' =
          append_rows (wc_header ''Warning'') (map wc_updated_row (wc_updated_entries es))
            (records_updated b)
      \<and> records_with_no_update_needed b' =
          append_rows (wc_header ''Error'')
            (map (wc_no_update_row (set_or_unset_choice b)) (wc_no_update_entries es))
            (records_with_no_update_needed b)
      \<and> wc_records_with_errors b' =
          append_rows (wc_header ''Error'')
            (map (wc_error_row (set_or_unset_choice b)) (wc_error_entries es))
            (wc_records_with_errors b)
      \<and> results' ''num_records_updated'' = Some (c1 + int (length (wc_updated_entries es)))
      \<and> results' ''num_records_with_no_update_needed''
          = Some (c2 + int (length (wc_no_update_entries es)))
      \<and> results' ''num_records_with_errors'' = Some (c3 + int (length (wc_error_entries es)))
      \<and> length (wc_updated_entries es) + length (wc_no_update_entries es)
          + length (wc_error_entries es) = length es
      \<and> (\<forall>e. (wc_warning e \<noteq> []) = (he_currentOclcNumber e \<noteq> he_requestedOclcNumber e))"
proof -
  obtain results' b' where
    loop: "for_each wc_process_entry es (results, b) = (Inr (), (results', b'))"
    and rest: "results' ''num_records_updated'' = Some (c1 + int (length (wc_updated_entries es)))"
      "results' ''num_records_with_no_update_needed''
          = Some (c2 + int (length (wc_no_update_entries es)))"
      "results' ''num_records_with_errors'' = Some (c3 + int (length (wc_error_entries es)))"
      "records_updated b' =
          append_rows (wc_header ''Warning'') (map wc_updated_row (wc_updated_entries es))
            (records_updated b)"
      "records_with_no_update_needed b' =
          append_rows (wc_header ''Error'')
            (map (wc_no_update_row (set_or_unset_choice b)) (wc_no_update_entries es))
            (records_with_no_update_needed b)"
      "wc_records_with_errors b' =
          append_rows (wc_header ''Error'')
            (map (wc_error_row (set_or_unset_choice b)) (wc_error_entries es))
            (wc_records_with_errors b)"
    using wc_loop[OF c1 c2 c3, of es b] by blast
  have run: "wc_process_records R (w, results, b) = (Inr (), (w1, results', b'))"
    using url reply entries loop
    by (simp add: wc_process_records_def environ_get_def split_beta)
  have part: "length (wc_updated_entries es) + length (wc_no_update_entries es)
          + length (wc_error_entries es) = length es"
    unfolding wc_updated_entries_def wc_no_update_entries_def wc_error_entries_def
    by (induction es) auto
  have warn: "\<forall>e. (wc_warning e \<noteq> []) = (he_currentOclcNumber e \<noteq> he_requestedOclcNumber e)"
    by (simp add: wc_warning_def)
  show ?thesis
    using run rest part warn by blast
qed

theorem C4_set_unset_classification_witness:
  "\<exists>w1 results' b'.
     wc_process_records
       (scripted [ok_response (HoldingBody
           [\<lparr>he_requestedOclcNumber = ''3'', he_currentOclcNumber = ''33'',
             he_httpStatusCode = ''HTTP 200 OK'', he_errorDetail = ''None''\<rparr>,
            \<lparr>he_requestedOclcNumber = ''1'', he_currentOclcNumber = ''1'',
             he_httpStatusCode = ''HTTP 409 Conflict'', he_errorDetail = ''Already set''\<rparr>,
            \<lparr>he_requestedOclcNumber = ''2'', he_currentOclcNumber = ''2'',
             he_httpStatusCode = ''HTTP 404 Not Found'', he_errorDetail = ''Unknown''\<rparr>])]
          (Granted demo_token) 0)
       (demo_world [],
        [''num_records_updated'' \<mapsto> 0, ''num_records_with_no_update_needed'' \<mapsto> 0,
         ''num_records_with_errors'' \<mapsto> 0],
        \<lparr>oclc_num_set = {''1'', ''2'', ''3''}, set_or_unset_choice = ''set'', cascade = ''0'',
         records_with_no_update_needed = [], records_updated = [],
         wc_records_with_errors = []\<rparr>)
     = (Inr (), (w1, results', b'))
     \<and> trace w1 = [ApiCall POST ''https://worldcat.org/ih/datalist?oclcNumbers=1,2,3'' ''tk_old'']
     \<and> records_updated b' =
         [[''Requested OCLC Number'', ''New OCLC Number (if applicable)'', ''Warning''],
          [''3'', ''33'', ''Warning: OCLC number 3 has been updated to 33. Consider updating Alma record.'']]
     \<and> records_with_no_update_needed b' =
         [[''Requested OCLC Number'', ''New OCLC Number (if applicable)'', ''Error''],
          [''1'', [], ''Problem with Set Holding API response: Already set. '']]
     \<and> wc_records_with_errors b' =
         [[''Requested OCLC Number'', ''New OCLC Number (if applicable)'', ''Error''],
          [''2'', [], ''Problem with Set Holding API response: HTTP 404 Not Found: Unknown. '']]
     \<and> results' ''num_records_updated'' = Some 1"
proof -
  let ?es = "[\<lparr>he_requestedOclcNumber = ''3'', he_currentOclcNumber = ''33'',
             he_httpStatusCode = ''HTTP 200 OK'', he_errorDetail = ''None''\<rparr>,
            \<lparr>he_requestedOclcNumber = ''1'', he_currentOclcNumber = ''1'',
             he_httpStatusCode = ''HTTP 409 Conflict'', he_errorDetail = ''Already set''\<rparr>,
            \<lparr>he_requestedOclcNumber = ''2'', he_currentOclcNumber = ''2'',
             he_httpStatusCode = ''HTTP 404 Not Found'', he_errorDetail = ''Unknown''\<rparr>]"
  let ?R = "scripted [ok_response (HoldingBody ?es)] (Granted demo_token) 0"
  let ?w = "demo_world []"
  let ?b = "\<lparr>oclc_num_set = {''1'', ''2'', ''3''}, set_or_unset_choice = ''set'', cascade = ''0'',
         records_with_no_update_needed = [], records_updated = [],
         wc_records_with_errors = []\<rparr>"
  let ?res = "[''num_records_updated'' \<mapsto> (0::int), ''num_records_with_no_update_needed'' \<mapsto> 0,
         ''num_records_with_errors'' \<mapsto> 0]"
  let ?resp = "\<lparr>status_code = 200, reason = ''OK'', body = HoldingBody ?es\<rparr>"
  let ?w1 = "?w\<lparr>trace := [ApiCall POST ''https://worldcat.org/ih/datalist?oclcNumbers=1,2,3'' ''tk_old'']\<rparr>"
  have u: "environ ?w ''WORLDCAT_METADATA_API_URL'' = Some ''https://worldcat.org''"
    by (simp add: demo_world_def)
  have rq: "wc_request ?R ''https://worldcat.org'' ?b
      = (POST, ''https://worldcat.org/ih/datalist?oclcNumbers=1,2,3'')"
    by (simp add: wc_request_def wc_url_def scripted_def)
  have r: "make_api_request ?R (fst (wc_request ?R ''https://worldcat.org'' ?b))
        (snd (wc_request ?R ''https://worldcat.org'' ?b)) ?w = (Inr ?resp, ?w1)"
    unfolding rq
    by (simp add: make_api_request_def finish_request_def log_response_and_raise_for_status_def
        demo_defs)
  have b: "body ?resp = HoldingBody ?es" by simp
  have k: "?res ''num_records_updated'' = Some 0"
    "?res ''num_records_with_no_update_needed'' = Some 0"
    "?res ''num_records_with_errors'' = Some 0"
    by simp_all
  from C4_set_unset_classification[OF u r b k] obtain results' b' where
    "wc_process_records ?R (?w, ?res, ?b) = (Inr (), (?w1, results', b'))
      \<and> records_updated b' =
          append_rows (wc_header ''Warning'') (map wc_updated_row (wc_updated_entries ?es))
            (records_updated ?b)
      \<and> records_with_no_update_needed b' =
          append_rows (wc_header ''Error'')
            (map (wc_no_update_row (set_or_unset_choice ?b)) (wc_no_update_entries ?es))
            (records_with_no_update_needed ?b)
      \<and> wc_records_with_errors b' =
          append_rows (wc_header ''Error'')
            (map (wc_error_row (set_or_unset_choice ?b)) (wc_error_entries ?es))
            (wc_records_with_errors ?b)
      \<and> results' ''num_records_updated'' = Some (0 + int (length (wc_updated_entries ?es)))"
    by blast
  then have "wc_process_records ?R (?w, ?res, ?b) = (Inr (), (?w1, results', b'))
     \<and> trace ?w1 = [ApiCall POST ''https://worldcat.org/ih/datalist?oclcNumbers=1,2,3'' ''tk_old'']
     \<and> records_updated b' =
         [[''Requested OCLC Number'', ''New OCLC Number (if applicable)'', ''Warning''],
          [''3'', ''33'', ''Warning: OCLC number 3 has been updated to 33. Consider updating Alma record.'']]
     \<and> records_with_no_update_needed b' =
         [[''Requested OCLC Number'', ''New OCLC Number (if applicable)'', ''Error''],
          [''1'', [], ''Problem with Set Holding API response: Already set. '']]
     \<and> wc_records_with_errors b' =
         [[''Requested OCLC Number'', ''New OCLC Number (if applicable)'', ''Error''],
          [''2'', [], ''Problem with Set Holding API response: HTTP 404 Not Found: Unknown. '']]
     \<and> results' ''num_records_updated'' = Some 1"
    by (simp add: wc_updated_entries_def wc_no_update_entries_def wc_error_entries_def
        append_rows_def wc_header_def wc_updated_row_def wc_no_update_row_def wc_error_row_def
        wc_new_number_def wc_warning_def)
  then show ?thesis by blast
qed

section \<open>Facts about the holdings-check loop\<close>

lemma alma_rows_same_dict:
  assumes "oclc_num_dict b1 = oclc_num_dict b"
  shows "alma_error_row b1 = alma_error_row b" "alma_current_row b1 = alma_current_row b"
    "alma_old_row b1 = alma_old_row b"
  using assms
  by (auto simp: alma_error_row_def alma_current_row_def alma_old_row_def record_key_def fun_eq_iff)

lemma alma_step:
  assumes "map_of (oclc_num_dict b) (ce_requestedOclcNumber e) = Some key"
    and "results ''num_records_with_errors'' = Some c1"
    and "results ''num_records_with_current_oclc_num'' = Some c2"
    and "results ''num_records_with_old_oclc_num'' = Some c3"
  shows "alma_process_entry e (results, b) =
     (if \<not> ce_found e then
        (Inr (), (results(''num_records_with_errors'' \<mapsto> c1 + 1),
           b\<lparr>alma_records_with_errors := writerow (alma_error_row b e)
               (write_header_if_new [''MMS ID'', ''OCLC Number'', ''Error'']
                  (alma_records_with_errors b))\<rparr>))
      else if \<not> ce_merged e then
        (Inr (), (results(''num_records_with_current_oclc_num'' \<mapsto> c2 + 1),
           b\<lparr>records_with_current_oclc_num := writerow (alma_current_row b e)
               (write_header_if_new [''MMS ID'', ''Current OCLC Number'']
                  (records_with_current_oclc_num b))\<rparr>))
      else
        (Inr (), (results(''num_records_with_old_oclc_num'' \<mapsto> c3 + 1),
           b\<lparr>records_with_old_oclc_num := writerow (alma_old_row b e)
               (write_header_if_new
                  [''MMS ID'', ''Current OCLC Number'', ''Original OCLC Number'']
                  (records_with_old_oclc_num b))\<rparr>)))"
  using assms
  by (simp add: alma_process_entry_def increment_def alma_error_row_def alma_current_row_def
      alma_old_row_def record_key_def alma_error_msg_def)

lemma alma_loop:
  assumes "results ''num_records_with_errors'' = Some c1"
    and "results ''num_records_with_current_oclc_num'' = Some c2"
    and "results ''num_records_with_old_oclc_num'' = Some c3"
    and "\<forall>e \<in> set es. map_of (oclc_num_dict b) (ce_requestedOclcNumber e) \<noteq> None"
  shows "\<exists>results' b'.
      for_each alma_process_entry es (results, b) = (Inr (), (results', b'))
      \<and> results' ''num_records_with_errors'' = Some (c1 + int (length (alma_error_entries es)))
      \<and> results' ''num_records_with_current_oclc_num''
          = Some (c2 + int (length (alma_current_entries es)))
      \<and> results' ''num_records_with_old_oclc_num''
          = Some (c3 + int (length (alma_old_entries es)))
      \<and> alma_records_with_errors b' =
          append_rows [''MMS ID'', ''OCLC Number'', ''Error'']
            (map (alma_error_row b) (alma_error_entries es)) (alma_records_with_errors b)
      \<and> records_with_current_oclc_num b' =
          append_rows [''MMS ID'', ''Current OCLC Number'']
            (map (alma_current_row b) (alma_current_entries es))
            (records_with_current_oclc_num b)
      \<and> records_with_old_oclc_num b' =
          append_rows [''MMS ID'', ''Current OCLC Number'', ''Original OCLC Number'']
            (map (alma_old_row b) (alma_old_entries es)) (records_with_old_oclc_num b)
      \<and> oclc_num_dict b' = oclc_num_dict b"
  using assms
proof (induction es arbitrary: results b c1 c2 c3)
  case Nil
  then show ?case
    by (simp add: alma_error_entries_def alma_current_entries_def alma_old_entries_def
        append_rows_Nil)
next
  case (Cons e es)
  from Cons.prems(4) obtain key where
    key: "map_of (oclc_num_dict b) (ce_requestedOclcNumber e) = Some key"
    by auto
  note step = alma_step[OF key Cons.prems(1-3)]
  have "\<exists>r1 b1. (alma_process_entry e (results, b) = (Inr (), (r1, b1)))
      \<and> (oclc_num_dict b1 = oclc_num_dict b)
      \<and> (r1 ''num_records_with_errors'' = Some (c1 + (if \<not> ce_found e then 1 else 0)))
      \<and> (r1 ''num_records_with_current_oclc_num''
         = Some (c2 + (if ce_found e \<and> \<not> ce_merged e then 1 else 0)))
      \<and> (r1 ''num_records_with_old_oclc_num''
         = Some (c3 + (if ce_found e \<and> ce_merged e then 1 else 0)))
      \<and> (alma_records_with_errors b1 =
         (if \<not> ce_found e
          then writerow (alma_error_row b e)
                 (write_header_if_new [''MMS ID'', ''OCLC Number'', ''Error'']
                    (alma_records_with_errors b))
          else alma_records_with_errors b))
      \<and> (records_with_current_oclc_num b1 =
         (if ce_found e \<and> \<not> ce_merged e
          then writerow (alma_current_row b e)
                 (write_header_if_new [''MMS ID'', ''Current OCLC Number'']
                    (records_with_current_oclc_num b))
          else records_with_current_oclc_num b))
      \<and> (records_with_old_oclc_num b1 =
         (if ce_found e \<and> ce_merged e
          then writerow (alma_old_row b e)
                 (write_header_if_new
                    [''MMS ID'', ''Current OCLC Number'', ''Original OCLC Number'']
                    (records_with_old_oclc_num b))
          else records_with_old_oclc_num b))"
    using step Cons.prems(1-3) by (cases "ce_found e"; cases "ce_merged e") simp_all
  then obtain r1 b1 where s1: "alma_process_entry e (results, b) = (Inr (), (r1, b1))"
    and d1: "oclc_num_dict b1 = oclc_num_dict b"
    and k1: "r1 ''num_records_with_errors'' = Some (c1 + (if \<not> ce_found e then 1 else 0))"
      "r1 ''num_records_with_current_oclc_num''
         = Some (c2 + (if ce_found e \<and> \<not> ce_merged e then 1 else 0))"
      "r1 ''num_records_with_old_oclc_num''
         = Some (c3 + (if ce_found e \<and> ce_merged e then 1 else 0))"
    and f1: "alma_records_with_errors b1 =
         (if \<not> ce_found e
          then writerow (alma_error_row b e)
                 (write_header_if_new [''MMS ID'', ''OCLC Number'', ''Error'']
                    (alma_records_with_errors b))
          else alma_records_with_errors b)"
      "records_with_current_oclc_num b1 =
         (if ce_found e \<and> \<not> ce_merged e
          then writerow (alma_current_row b e)
                 (write_header_if_new [''MMS ID'', ''Current OCLC Number'']
                    (records_with_current_oclc_num b))
          else records_with_current_oclc_num b)"
      "records_with_old_oclc_num b1 =
         (if ce_found e \<and> ce_merged e
          then writerow (alma_old_row b e)
                 (write_header_if_new
                    [''MMS ID'', ''Current OCLC Number'', ''Original OCLC Number'']
                    (records_with_old_oclc_num b))
          else records_with_old_oclc_num b)"
    by blast
  have known1: "\<forall>e \<in> set es. map_of (oclc_num_dict b1) (ce_requestedOclcNumber e) \<noteq> None"
    using Cons.prems(4) d1 by simp
  from Cons.IH[OF k1 known1] obtain results' b' where
    ih: "for_each alma_process_entry es (r1, b1) = (Inr (), (results', b'))"
      "results' ''num_records_with_errors''
         = Some (c1 + (if \<not> ce_found e then 1 else 0) + int (length (alma_error_entries es)))"
      "results' ''num_records_with_current_oclc_num''
         = Some (c2 + (if ce_found e \<and> \<not> ce_merged e then 1 else 0)
                 + int (length (alma_current_entries es)))"
      "results' ''num_records_with_old_oclc_num''
         = Some (c3 + (if ce_found e \<and> ce_merged e then 1 else 0)
                 + int (length (alma_old_entries es)))"
      "alma_records_with_errors b' =
          append_rows [''MMS ID'', ''OCLC Number'', ''Error'']
            (map (alma_error_row b1) (alma_error_entries es)) (alma_records_with_errors b1)"
      "records_with_current_oclc_num b' =
          append_rows [''MMS ID'', ''Current OCLC Number'']
            (map (alma_current_row b1) (alma_current_entries es))
            (records_with_current_oclc_num b1)"
      "records_with_old_oclc_num b' =
          append_rows [''MMS ID'', ''Current OCLC Number'', ''Original OCLC Number'']
            (map (alma_old_row b1) (alma_old_entries es)) (records_with_old_oclc_num b1)"
      "oclc_num_dict b' = oclc_num_dict b1"
    by blast
  show ?case
    using ih s1 d1 f1 alma_rows_same_dict[OF d1]
    by (simp add: alma_error_entries_def alma_current_entries_def alma_old_entries_def
        append_rows_Cons)
qed

lemma alma_partition:
  "length (filter P (alma_error_entries es)) + length (filter P (alma_current_entries es))
     + length (filter P (alma_old_entries es)) = length (filter P es)"
  unfolding alma_error_entries_def alma_current_entries_def alma_old_entries_def
  by (induction es) auto

lemma once_if_distinct:
  "distinct (map f xs) \<Longrightarrow> k \<in> f ` set xs \<Longrightarrow> length (filter (\<lambda>x. f x = k) xs) = 1"
proof (induction xs)
  case Nil
  then show ?case by simp
next
  case (Cons x xs)
  show ?case
  proof (cases "f x = k")
    case True
    with Cons.prems have "k \<notin> f ` set xs" by auto
    then have "filter (\<lambda>x. f x = k) xs = []" by (auto simp: filter_empty_conv)
    with True show ?thesis by simp
  next
    case False
    with Cons show ?thesis by auto
  qed
qed

section \<open>C2: classification of holdings-check responses\<close>

text \<open>
  Claim C2, as amended. For every batch of the holdings-check buffer whose response
  decodes to entries that each name an identifier of the buffer, every response entry is
  written to exactly one bucket, decided by \<open>found\<close> and \<open>merged\<close>: not found goes to
  the Error file (the error counter grows; the row is record key, identifier and a
  message that the number was not found), found and not merged goes to the Current file
  (record key, current identifier), found and merged goes to the Old file (record key,
  current identifier, original identifier). When the response has exactly one entry for
  each identifier of the buffer, each input identifier therefore lands in exactly one
  bucket.
\<close>

theorem C2_holdings_check_classification:
  assumes url: "environ w ''WORLDCAT_METADATA_API_URL'' = Some base"
    and reply: "make_api_request R GET (alma_url base b) w = (Inr api_response, w1)"
    and entries: "body api_response = CheckBody es"
    and c1: "results ''num_records_with_errors'' = Some c1"
    and c2: "results ''num_records_with_current_oclc_num'' = Some c2"
    and c3: "results ''num_records_with_old_oclc_num'' = Some c3"
    and known: "\<forall>e \<in> set es. ce_requestedOclcNumber e \<in> fst ` set (oclc_num_dict b)"
  shows "\<exists>results' b'.
      alma_process_records R (w, results, b) = (Inr (), (w1, results', b'))
      \<and> alma_records_with_errors b' =
          append_rows [''MMS ID'', ''OCLC Number'', ''Error'']
            (map (alma_error_row b) (alma_error_entries es)) (alma_records_with_errors b)
      \<and> records_with_current_oclc_num b' =
          append_rows [''MMS ID'', ''Current OCLC Number'']
            (map (alma_current_row b) (alma_current_entries es))
            (records_with_current_oclc_num b)
      \<and> records_with_old_oclc_num b' =
          append_rows [''MMS ID'', ''Current OCLC Number'', ''Original OCLC Number'']
            (map (alma_old_row b) (alma_old_entries es)) (records_with_old_oclc_num b)
      \<and> results' ''num_records_with_errors'' = Some (c1 + int (length (alma_error_entries es)))
      \<and> results' ''num_records_with_current_oclc_num''
          = Some (c2 + int (length (alma_current_entries es)))
      \<and> results' ''num_records_with_old_oclc_num''
          = Some (c3 + int (length (alma_old_entries es)))
      \<and> (\<forall>e. length (alma_error_entries [e]) + length (alma_current_entries [e])
                + length (alma_old_entries [e]) = 1)
      \<and> (distinct (map ce_requestedOclcNumber es)
           \<and> ce_requestedOclcNumber ` set es = fst ` set (oclc_num_dict b)
          \<longrightarrow> (\<forall>k \<in> fst ` set (oclc_num_dict b).
                 length (filter (\<lambda>e. ce_requestedOclcNumber e = k) (alma_error_entries es))
                 + length (filter (\<lambda>e. ce_requestedOclcNumber e = k) (alma_current_entries es))
                 + length (filter (\<lambda>e. ce_requestedOclcNumber e = k) (alma_old_entries es))
                 = 1))"
proof -
  have known': "\<forall>e \<in> set es. map_of (oclc_num_dict b) (ce_requestedOclcNumber e) \<noteq> None"
    using known by (simp add: map_of_eq_None_iff)
  obtain results' b' where
    loop: "for_each alma_process_entry es (results, b) = (Inr (), (results', b'))"
    and rest: "results' ''num_records_with_errors''
          = Some (c1 + int (length (alma_error_entries es)))"
      "results' ''num_records_with_current_oclc_num''
          = Some (c2 + int (length (alma_current_entries es)))"
      "results' ''num_records_with_old_oclc_num''
          = Some (c3 + int (length (alma_old_entries es)))"
      "alma_records_with_errors b' =
          append_rows [''MMS ID'', ''OCLC Number'', ''Error'']
            (map (alma_error_row b) (alma_error_entries es)) (alma_records_with_errors b)"
      "records_with_current_oclc_num b' =
          append_rows [''MMS ID'', ''Current OCLC Number'']
            (map (alma_current_row b) (alma_current_entries es))
            (records_with_current_oclc_num b)"
      "records_with_old_oclc_num b' =
          append_rows [''MMS ID'', ''Current OCLC Number'', ''Original OCLC Number'']
            (map (alma_old_row b) (alma_old_entries es)) (records_with_old_oclc_num b)"
    using alma_loop[OF c1 c2 c3 known'] by blast
  have run: "alma_process_records R (w, results, b) = (Inr (), (w1, results', b'))"
    using url reply entries loop
    by (simp add: alma_process_records_def environ_get_def)
  have one: "\<forall>e. length (alma_error_entries [e]) + length (alma_current_entries [e])
                + length (alma_old_entries [e]) = 1"
    by (simp add: alma_error_entries_def alma_current_entries_def alma_old_entries_def)
  have each: "distinct (map ce_requestedOclcNumber es)
           \<and> ce_requestedOclcNumber ` set es = fst ` set (oclc_num_dict b)
          \<longrightarrow> (\<forall>k \<in> fst ` set (oclc_num_dict b).
                 length (filter (\<lambda>e. ce_requestedOclcNumber e = k) (alma_error_entries es))
                 + length (filter (\<lambda>e. ce_requestedOclcNumber e = k) (alma_current_entries es))
                 + length (filter (\<lambda>e. ce_requestedOclcNumber e = k) (alma_old_entries es))
                 = 1)"
    using once_if_distinct[of ce_requestedOclcNumber es]
    by (simp add: alma_partition)
  show ?thesis
    using run rest one each by blast
qed

text \<open>
  The claim as first stated, for every batch, fails: the loop runs over the entries of
  the response, so an identifier the response has no entry for lands in no bucket. Here
  the buffer holds the identifier 1 and the response is an empty list of entries.
\<close>

theorem C2_counterexample:
  "fst (alma_process_records
          (scripted [ok_response (CheckBody [])] (Granted demo_token) 0)
          (demo_world [],
           [''num_records_with_errors'' \<mapsto> 0, ''num_records_with_current_oclc_num'' \<mapsto> 0,
            ''num_records_with_old_oclc_num'' \<mapsto> 0],
           \<lparr>oclc_num_dict = [(''1'', ''m1'')], records_with_current_oclc_num = [],
            records_with_old_oclc_num = [], alma_records_with_errors = []\<rparr>)) = Inr ()
   \<and> snd (snd (snd (alma_process_records
          (scripted [ok_response (CheckBody [])] (Granted demo_token) 0)
          (demo_world [],
           [''num_records_with_errors'' \<mapsto> 0, ''num_records_with_current_oclc_num'' \<mapsto> 0,
            ''num_records_with_old_oclc_num'' \<mapsto> 0],
           \<lparr>oclc_num_dict = [(''1'', ''m1'')], records_with_current_oclc_num = [],
            records_with_old_oclc_num = [], alma_records_with_errors = []\<rparr>))))
     = \<lparr>oclc_num_dict = [(''1'', ''m1'')], records_with_current_oclc_num = [],
        records_with_old_oclc_num = [], alma_records_with_errors = []\<rparr>"
  by (simp add: alma_process_records_def alma_url_def environ_get_def make_api_request_def
      finish_request_def log_response_and_raise_for_status_def demo_defs)

theorem C2_holdings_check_classification_witness:
  "\<exists>w1 results' b'.
     alma_process_records
       (scripted [ok_response (CheckBody
           [\<lparr>ce_requestedOclcNumber = ''1'', ce_currentOclcNumber = ''1'',
             ce_found = True, ce_merged = False\<rparr>,
            \<lparr>ce_requestedOclcNumber = ''2'', ce_currentOclcNumber = ''22'',
             ce_found = True, ce_merged = True\<rparr>,
            \<lparr>ce_requestedOclcNumber = ''3'', ce_currentOclcNumber = ''3'',
             ce_found = False, ce_merged = False\<rparr>])]
          (Granted demo_token) 0)
       (demo_world [],
        [''num_records_with_errors'' \<mapsto> 0, ''num_records_with_current_oclc_num'' \<mapsto> 0,
         ''num_records_with_old_oclc_num'' \<mapsto> 0],
        \<lparr>oclc_num_dict = [(''1'', ''m1''), (''2'', ''m2''), (''3'', ''m3'')],
         records_with_current_oclc_num = [], records_with_old_oclc_num = [],
         alma_records_with_errors = []\<rparr>)
     = (Inr (), (w1, results', b'))
     \<and> trace w1 =
         [ApiCall GET ''https://worldcat.org/bib/checkcontrolnumbers?oclcNumbers=1,2,3'' ''tk_old'']
     \<and> records_with_current_oclc_num b' =
         [[''MMS ID'', ''Current OCLC Number''], [''m1'', ''1'']]
     \<and> records_with_old_oclc_num b' =
         [[''MMS ID'', ''Current OCLC Number'', ''Original OCLC Number''], [''m2'', ''22'', ''2'']]
     \<and> alma_records_with_errors b' =
         [[''MMS ID'', ''OCLC Number'', ''Error''],
          [''m3'', ''3'',
           ''Problem with Get Current OCLC Number API response: OCLC number not found'']]
     \<and> results' ''num_records_with_errors'' = Some 1
     \<and> results' ''num_records_with_current_oclc_num'' = Some 1
     \<and> results' ''num_records_with_old_oclc_num'' = Some 1"
proof -
  let ?es = "[\<lparr>ce_requestedOclcNumber = ''1'', ce_currentOclcNumber = ''1'',
             ce_found = True, ce_merged = False\<rparr>,
            \<lparr>ce_requestedOclcNumber = ''2'', ce_currentOclcNumber = ''22'',
             ce_found = True, ce_merged = True\<rparr>,
            \<lparr>ce_requestedOclcNumber = ''3'', ce_currentOclcNumber = ''3'',
             ce_found = False, ce_merged = False\<rparr>]"
  let ?R = "scripted [ok_response (CheckBody ?es)] (Granted demo_token) 0"
  let ?w = "demo_world []"
  let ?b = "\<lparr>oclc_num_dict = [(''1'', ''m1''), (''2'', ''m2''), (''3'', ''m3'')],
         records_with_current_oclc_num = [], records_with_old_oclc_num = [],
         alma_records_with_errors = []\<rparr>"
  let ?res = "[''num_records_with_errors'' \<mapsto> (0::int),
         ''num_records_with_current_oclc_num'' \<mapsto> 0,
         ''num_records_with_old_oclc_num'' \<mapsto> 0]"
  let ?resp = "\<lparr>status_code = 200, reason = ''OK'', body = CheckBody ?es\<rparr>"
  let ?w1 = "?w\<lparr>trace :=
     [ApiCall GET ''https://worldcat.org/bib/checkcontrolnumbers?oclcNumbers=1,2,3'' ''tk_old'']\<rparr>"
  have u: "environ ?w ''WORLDCAT_METADATA_API_URL'' = Some ''https://worldcat.org''"
    by (simp add: demo_world_def)
  have rq: "alma_url ''https://worldcat.org'' ?b
      = ''https://worldcat.org/bib/checkcontrolnumbers?oclcNumbers=1,2,3''"
    by (simp add: alma_url_def)
  have r: "make_api_request ?R GET (alma_url ''https://worldcat.org'' ?b) ?w = (Inr ?resp, ?w1)"
    unfolding rq
    by (simp add: make_api_request_def finish_request_def log_response_and_raise_for_status_def
        demo_defs)
  have b: "body ?resp = CheckBody ?es" by simp
  have k: "?res ''num_records_with_errors'' = Some 0"
    "?res ''num_records_with_current_oclc_num'' = Some 0"
    "?res ''num_records_with_old_oclc_num'' = Some 0"
    by simp_all
  have known: "\<forall>e \<in> set ?es. ce_requestedOclcNumber e \<in> fst ` set (oclc_num_dict ?b)"
    by simp
  from C2_holdings_check_classification[OF u r b k known] obtain results' b' where
    "alma_process_records ?R (?w, ?res, ?b) = (Inr (), (?w1, results', b'))
      \<and> alma_records_with_errors b' =
          append_rows [''MMS ID'', ''OCLC Number'', ''Error'']
            (map (alma_error_row ?b) (alma_error_entries ?es)) (alma_records_with_errors ?b)
      \<and> records_with_current_oclc_num b' =
          append_rows [''MMS ID'', ''Current OCLC Number'']
            (map (alma_current_row ?b) (alma_current_entries ?es))
            (records_with_current_oclc_num ?b)
      \<and> records_with_old_oclc_num b' =
          append_rows [''MMS ID'', ''Current OCLC Number'', ''Original OCLC Number'']
            (map (alma_old_row ?b) (alma_old_entries ?es)) (records_with_old_oclc_num ?b)
      \<and> results' ''num_records_with_errors'' = Some (0 + int (length (alma_error_entries ?es)))
      \<and> results' ''num_records_with_current_oclc_num''
          = Some (0 + int (length (alma_current_entries ?es)))
      \<and> results' ''num_records_with_old_oclc_num''
          = Some (0 + int (length (alma_old_entries ?es)))"
    by blast
  then have "alma_process_records ?R (?w, ?res, ?b) = (Inr (), (?w1, results', b'))
     \<and> trace ?w1 =
         [ApiCall GET ''https://worldcat.org/bib/checkcontrolnumbers?oclcNumbers=1,2,3'' ''tk_old'']
     \<and> records_with_current_oclc_num b' =
         [[''MMS ID'', ''Current OCLC Number''], [''m1'', ''1'']]
     \<and> records_with_old_oclc_num b' =
         [[''MMS ID'', ''Current OCLC Number'', ''Original OCLC Number''], [''m2'', ''22'', ''2'']]
     \<and> alma_records_with_errors b' =
         [[''MMS ID'', ''OCLC Number'', ''Error''],
          [''m3'', ''3'',
           ''Problem with Get Current OCLC Number API response: OCLC number not found'']]
     \<and> results' ''num_records_with_errors'' = Some 1
     \<and> results' ''num_records_with_current_oclc_num'' = Some 1
     \<and> results' ''num_records_with_old_oclc_num'' = Some 1"
    by (simp add: alma_error_entries_def alma_current_entries_def alma_old_entries_def
        append_rows_def alma_error_row_def alma_current_row_def alma_old_row_def record_key_def)
  then show ?thesis by blast
qed

section \<open>C7: an undecodable response\<close>

text \<open>
  Claim C7. In each of the three buffers, when the body of the API response does not
  decode as JSON, \<open>process_records\<close> ends with the \<open>JSONDecodeError\<close> raised to its
  caller, and nothing is classified: the counters, the output files and the frame are
  as they were before the call.
\<close>

theorem C7_decode_error_is_raised:
  "(environ w ''WORLDCAT_METADATA_API_URL'' = Some base
      \<and> make_api_request R GET (alma_url base a) w = (Inr api_response, w1)
      \<and> body api_response = Undecodable msg
     \<longrightarrow> alma_process_records R (w, results, a) = (Inl (JSONDecodeError msg), (w1, results, a)))
   \<and> (environ w ''WORLDCAT_METADATA_API_URL'' = Some base
      \<and> make_api_request R (fst (wc_request R base c)) (snd (wc_request R base c)) w
          = (Inr api_response, w1)
      \<and> body api_response = Undecodable msg
     \<longrightarrow> wc_process_records R (w, results, c) = (Inl (JSONDecodeError msg), (w1, results, c)))
   \<and> (record_list b = [(i, row)]
      \<and> environ w ''WORLDCAT_METADATA_API_URL_FOR_SEARCH'' = Some search_base
      \<and> environ w ''OCLC_INSTITUTION_SYMBOL'' = Some symbol
      \<and> make_api_request R GET (search_url search_base symbol row) w = (Inr api_response, w1)
      \<and> body api_response = Undecodable msg
     \<longrightarrow> search_process_records R flag (w, b) = (Inl (JSONDecodeError msg), (w1, b)))"
  by (simp add: alma_process_records_def wc_process_records_def search_process_records_def
      environ_get_def split_beta)

theorem C7_decode_error_is_raised_witness:
  "alma_process_records (scripted [ok_response (Undecodable ''Expecting value'')]
        (Granted demo_token) 0)
      (demo_world [], Map.empty,
       \<lparr>oclc_num_dict = [(''1'', ''m1'')], records_with_current_oclc_num = [],
        records_with_old_oclc_num = [], alma_records_with_errors = []\<rparr>)
    = (Inl (JSONDecodeError ''Expecting value''),
       ((demo_world [])\<lparr>trace :=
          [ApiCall GET ''https://worldcat.org/bib/checkcontrolnumbers?oclcNumbers=1'' ''tk_old'']\<rparr>,
        Map.empty,
        \<lparr>oclc_num_dict = [(''1'', ''m1'')], records_with_current_oclc_num = [],
         records_with_old_oclc_num = [], alma_records_with_errors = []\<rparr>))
   \<and> wc_process_records (scripted [ok_response (Undecodable ''Expecting value'')]
        (Granted demo_token) 0)
      (demo_world [], Map.empty,
       \<lparr>oclc_num_set = {''1''}, set_or_unset_choice = ''unset'', cascade = ''0'',
        records_with_no_update_needed = [], records_updated = [],
        wc_records_with_errors = []\<rparr>)
    = (Inl (JSONDecodeError ''Expecting value''),
       ((demo_world [])\<lparr>trace :=
          [ApiCall DELETE ''https://worldcat.org/ih/datalist?oclcNumbers=1&cascade=0'' ''tk_old'']\<rparr>,
        Map.empty,
        \<lparr>oclc_num_set = {''1''}, set_or_unset_choice = ''unset'', cascade = ''0'',
         records_with_no_update_needed = [], records_updated = [],
         wc_records_with_errors = []\<rparr>))
   \<and> search_process_records (scripted [ok_response (Undecodable ''Expecting value'')]
        (Granted demo_token) 0) False
      (demo_world [(''OCLC_INSTITUTION_SYMBOL'', ''ABC'')],
       \<lparr>record_list = [(0, demo_row ''991'' ''n79021164'')],
        dataframe_for_input_file = [demo_row ''991'' ''n79021164'']\<rparr>)
    = (Inl (JSONDecodeError ''Expecting value''),
       ((demo_world [(''OCLC_INSTITUTION_SYMBOL'', ''ABC'')])\<lparr>trace :=
          [ApiCall GET
             ''https://search/brief-bibs?q=nl:n79021164&heldBySymbol=ABC&transactionID=ABC_2021-09-30T22:43:07Z''
             ''tk_old'']\<rparr>,
        \<lparr>record_list = [(0, demo_row ''991'' ''n79021164'')],
         dataframe_for_input_file = [demo_row ''991'' ''n79021164'']\<rparr>))"
proof -
  let ?R = "scripted [ok_response (Undecodable ''Expecting value'')] (Granted demo_token) 0"
  let ?resp = "\<lparr>status_code = 200, reason = ''OK'', body = Undecodable ''Expecting value''\<rparr>"
  let ?a = "\<lparr>oclc_num_dict = [(''1'', ''m1'')], records_with_current_oclc_num = [],
        records_with_old_oclc_num = [], alma_records_with_errors = []\<rparr>"
  let ?c = "\<lparr>oclc_num_set = {''1''}, set_or_unset_choice = ''unset'', cascade = ''0'',
        records_with_no_update_needed = [], records_updated = [],
        wc_records_with_errors = []\<rparr>"
  let ?b = "\<lparr>record_list = [(0::nat, demo_row ''991'' ''n79021164'')],
        dataframe_for_input_file = [demo_row ''991'' ''n79021164'']\<rparr>"
  let ?w = "demo_world []"
  let ?ws = "demo_world [(''OCLC_INSTITUTION_SYMBOL'', ''ABC'')]"
  have u: "environ ?w ''WORLDCAT_METADATA_API_URL'' = Some ''https://worldcat.org''"
    by (simp add: demo_world_def)
  have us: "environ ?ws ''WORLDCAT_METADATA_API_URL_FOR_SEARCH'' = Some ''https://search''"
    "environ ?ws ''OCLC_INSTITUTION_SYMBOL'' = Some ''ABC''"
    by (simp_all add: demo_world_def)
  have ra: "make_api_request ?R GET (alma_url ''https://worldcat.org'' ?a) ?w
      = (Inr ?resp, ?w\<lparr>trace :=
          [ApiCall GET ''https://worldcat.org/bib/checkcontrolnumbers?oclcNumbers=1'' ''tk_old'']\<rparr>)"
    by (simp add: alma_url_def make_api_request_def finish_request_def
        log_response_and_raise_for_status_def demo_defs)
  have rc: "make_api_request ?R (fst (wc_request ?R ''https://worldcat.org'' ?c))
        (snd (wc_request ?R ''https://worldcat.org'' ?c)) ?w
      = (Inr ?resp, ?w\<lparr>trace :=
          [ApiCall DELETE ''https://worldcat.org/ih/datalist?oclcNumbers=1&cascade=0'' ''tk_old'']\<rparr>)"
    by (simp add: wc_request_def wc_url_def make_api_request_def finish_request_def
        log_response_and_raise_for_status_def demo_defs)
  have rs: "make_api_request ?R GET
        (search_url ''https://search'' ''ABC'' (demo_row ''991'' ''n79021164'')) ?ws
      = (Inr ?resp, ?ws\<lparr>trace :=
          [ApiCall GET
             ''https://search/brief-bibs?q=nl:n79021164&heldBySymbol=ABC&transactionID=ABC_2021-09-30T22:43:07Z''
             ''tk_old'']\<rparr>)"
    by (simp add: search_url_def demo_row_def make_api_request_def finish_request_def
        log_response_and_raise_for_status_def demo_defs)
  have bd: "body ?resp = Undecodable ''Expecting value''" by simp
  have rl: "record_list ?b = [(0, demo_row ''991'' ''n79021164'')]" by simp
  note th = C7_decode_error_is_raised[where R = ?R and api_response = ?resp
      and msg = "''Expecting value''" and results = Map.empty]
  from th[where w = ?w and base = "''https://worldcat.org''" and a = ?a, THEN conjunct1]
    u ra bd
  have 1: "alma_process_records ?R (?w, Map.empty, ?a)
      = (Inl (JSONDecodeError ''Expecting value''),
         (?w\<lparr>trace :=
          [ApiCall GET ''https://worldcat.org/bib/checkcontrolnumbers?oclcNumbers=1'' ''tk_old'']\<rparr>,
          Map.empty, ?a))"
    by blast
  from th[where w = ?w and base = "''https://worldcat.org''" and c = ?c,
      THEN conjunct2, THEN conjunct1] u rc bd
  have 2: "wc_process_records ?R (?w, Map.empty, ?c)
      = (Inl (JSONDecodeError ''Expecting value''),
         (?w\<lparr>trace :=
          [ApiCall DELETE ''https://worldcat.org/ih/datalist?oclcNumbers=1&cascade=0'' ''tk_old'']\<rparr>,
          Map.empty, ?c))"
    by blast
  from th[where w = ?ws and b = ?b and i = 0 and row = "demo_row ''991'' ''n79021164''"
      and search_base = "''https://search''" and symbol = "''ABC''" and flag = False,
      THEN conjunct2, THEN conjunct2] us rs bd rl
  have 3: "search_process_records ?R False (?ws, ?b)
      = (Inl (JSONDecodeError ''Expecting value''),
         (?ws\<lparr>trace :=
          [ApiCall GET
             ''https://search/brief-bibs?q=nl:n79021164&heldBySymbol=ABC&transactionID=ABC_2021-09-30T22:43:07Z''
             ''tk_old'']\<rparr>, ?b))"
    by blast
  show ?thesis using 1 2 3 by blast
qed

section \<open>Facts about the driver loop\<close>

lemma run_process_records_seen:
  "records_already_processed (snd (run_process_records R flag s)) = records_already_processed s"
  by (simp add: run_process_records_def split: prod.splits)

lemma finally_row_seen:
  "records_already_processed (snd (finally_row i msg c p s)) = records_already_processed s"
  by (simp add: finally_row_def Let_def split: option.splits)

lemma try_row_duplicate:
  assumes "valid (mms_id (snd row)) ''MMS ID'' = Inr m" and "m \<in> records_already_processed s"
  shows "try_row R valid flag row s =
     (Inl (AssertionError (''Record with MMS ID '' @ m @ '' has already been processed.'')), s)"
  using assms by (simp add: try_row_def)

lemma try_row_fresh:
  assumes "valid (mms_id (snd row)) ''MMS ID'' = Inr m" and "m \<notin> records_already_processed s"
  shows "records_already_processed (snd (try_row R valid flag row s))
     = insert m (records_already_processed s)"
proof (cases "length (record_list (records_buffer s)) \<noteq> 0")
  case True
  then show ?thesis using assms by (simp add: try_row_def Let_def)
next
  case False
  then have "try_row R valid flag row s =
     run_process_records R flag
       (s\<lparr>records_already_processed := insert m (records_already_processed s),
          records_buffer := (records_buffer s)\<lparr>record_list := [row]\<rparr>\<rparr>)"
    using assms by (simp add: try_row_def Let_def search_add_def)
  then show ?thesis by (simp add: run_process_records_seen)
qed

lemma try_row_invalid:
  assumes "valid (mms_id (snd row)) ''MMS ID'' = Inl e"
  shows "try_row R valid flag row s = (Inl e, s)"
  using assms by (simp add: try_row_def)

lemma try_row_seen:
  "records_already_processed s \<subseteq> records_already_processed (snd (try_row R valid flag row s))
   \<and> (valid (mms_id (snd row)) ''MMS ID'' = Inr m
        \<longrightarrow> m \<in> records_already_processed (snd (try_row R valid flag row s)))"
proof (cases "valid (mms_id (snd row)) ''MMS ID''")
  case (Inl e)
  then show ?thesis by (simp add: try_row_invalid)
next
  case (Inr m')
  show ?thesis
  proof (cases "m' \<in> records_already_processed s")
    case True
    then show ?thesis using Inr by (auto simp: try_row_duplicate)
  next
    case False
    then show ?thesis using Inr by (auto simp: try_row_fresh)
  qed
qed

lemma retry_shape:
  "\<exists>msg c p. (case run_process_records R flag s1 of
        (Inr u, s2) \<Rightarrow> finally_row i None False None s2
      | (Inl (HTTPError m2 status2), s2) \<Rightarrow>
          finally_row i (Some (''HTTP Error: '' @ m2)) True None s2
      | (Inl e, s2) \<Rightarrow>
          finally_row i (Some (''HTTP Error: '' @ m)) False (Some e) s2)
     = finally_row i msg c p (snd (run_process_records R flag s1))"
proof -
  obtain r s2 where rp: "run_process_records R flag s1 = (r, s2)"
    by (cases "run_process_records R flag s1")
  show ?thesis
  proof (cases r)
    case (Inr u)
    then show ?thesis using rp by (simp; blast)
  next
    case (Inl e)
    then show ?thesis using rp by (cases e; simp; blast)
  qed
qed

lemma process_row_shape:
  "\<exists>msg c p s2. process_row R valid flag row s = finally_row (fst row) msg c p s2
     \<and> (s2 = snd (try_row R valid flag row s)
         \<or> s2 = snd (run_process_records R flag (snd (try_row R valid flag row s))))"
proof -
  obtain r s1 where t: "try_row R valid flag row s = (r, s1)"
    by (cases "try_row R valid flag row s")
  show ?thesis
  proof (cases r)
    case (Inr u)
    then show ?thesis using t by (simp add: process_row_def; blast)
  next
    case (Inl e)
    show ?thesis
    proof (cases e)
      case (HTTPError m status)
      show ?thesis
      proof (cases "startswith (case status of None \<Rightarrow> [] | Some c \<Rightarrow> str_nat c) ''5''")
        case True
        from retry_shape[where R = R and flag = flag and ?s1.0 = s1 and i = "fst row" and m = m] obtain msg c p where
          "(case run_process_records R flag s1 of
              (Inr u, s2) \<Rightarrow> finally_row (fst row) None False None s2
            | (Inl (HTTPError m2 status2), s2) \<Rightarrow>
                finally_row (fst row) (Some (''HTTP Error: '' @ m2)) True None s2
            | (Inl e, s2) \<Rightarrow>
                finally_row (fst row) (Some (''HTTP Error: '' @ m)) False (Some e) s2)
           = finally_row (fst row) msg c p (snd (run_process_records R flag s1))"
          by blast
        then have "process_row R valid flag row s
            = finally_row (fst row) msg c p (snd (run_process_records R flag s1))"
          using t Inl HTTPError True by (simp add: process_row_def)
        then show ?thesis using t by (simp; blast)
      next
        case False
        then show ?thesis using t Inl HTTPError by (simp add: process_row_def; blast)
      qed
    qed (use t Inl in \<open>simp add: process_row_def; blast\<close>)+
  qed
qed

lemma process_row_seen:
  "records_already_processed s \<subseteq> records_already_processed (snd (process_row R valid flag row s))
   \<and> (valid (mms_id (snd row)) ''MMS ID'' = Inr m
        \<longrightarrow> m \<in> records_already_processed (snd (process_row R valid flag row s)))"
proof -
  from process_row_shape[of R valid flag row s] obtain msg c p s2 where
    pr: "process_row R valid flag row s = finally_row (fst row) msg c p s2"
    and s2: "s2 = snd (try_row R valid flag row s)
         \<or> s2 = snd (run_process_records R flag (snd (try_row R valid flag row s)))"
    by blast
  have "records_already_processed s2
      = records_already_processed (snd (try_row R valid flag row s))"
    using s2 by (auto simp: run_process_records_seen)
  then have "records_already_processed (snd (process_row R valid flag row s))
      = records_already_processed (snd (try_row R valid flag row s))"
    using pr by (simp add: finally_row_seen)
  then show ?thesis using try_row_seen[of s R valid flag row m] by simp
qed

lemma run_rows_seen:
  "run_rows R valid flag rows s = (Continue, s') \<Longrightarrow>
     records_already_processed s \<subseteq> records_already_processed s'
     \<and> (\<forall>earlier \<in> set rows. \<forall>m. valid (mms_id (snd earlier)) ''MMS ID'' = Inr m
          \<longrightarrow> m \<in> records_already_processed s')"
proof (induction rows arbitrary: s)
  case Nil
  then show ?case by simp
next
  case (Cons row rows)
  obtain out s1 where p: "process_row R valid flag row s = (out, s1)"
    by (cases "process_row R valid flag row s")
  with Cons.prems have c: "out = Continue" and rest: "run_rows R valid flag rows s1 = (Continue, s')"
    by (cases out; simp)+
  from Cons.IH[OF rest] have ih: "records_already_processed s1 \<subseteq> records_already_processed s'"
    "\<forall>earlier \<in> set rows. \<forall>m. valid (mms_id (snd earlier)) ''MMS ID'' = Inr m
          \<longrightarrow> m \<in> records_already_processed s'"
    by simp_all
  have here: "records_already_processed s \<subseteq> records_already_processed s1"
    "\<forall>m. valid (mms_id (snd row)) ''MMS ID'' = Inr m \<longrightarrow> m \<in> records_already_processed s1"
    using process_row_seen[of s R valid flag row] p by simp_all
  show ?case using ih here by auto
qed

lemma run_rows_append:
  "run_rows R valid flag (xs @ ys) s =
     (case run_rows R valid flag xs s of
        (Continue, s') \<Rightarrow> run_rows R valid flag ys s'
      | (out, s') \<Rightarrow> (out, s'))"
proof (induction xs arbitrary: s)
  case Nil
  then show ?case by simp
next
  case (Cons x xs)
  obtain out s1 where p: "process_row R valid flag x s = (out, s1)"
    by (cases "process_row R valid flag x s")
  show ?case using p Cons.IH[of s1] by (cases out) simp_all
qed

text \<open>
  When the loop reaches a row whose MMS ID is that of an earlier row of the same run, the
  check before \<open>add\<close> raises an assertion error: the row is not added to the buffer
  and no request is sent for it, the error column of the row is set to the message, and
  the loop goes on with the next row.
\<close>

lemma duplicate_row_is_recorded:
  assumes reach: "run_rows R valid flag pre s0 = (Continue, s)"
    and earlier: "earlier \<in> set pre"
    and id0: "valid (mms_id (snd earlier)) ''MMS ID'' = Inr m"
    and id1: "valid (mms_id (snd row)) ''MMS ID'' = Inr m"
  shows "try_row R valid flag row s =
       (Inl (AssertionError (''Record with MMS ID '' @ m @ '' has already been processed.'')), s)
     \<and> process_row R valid flag row s =
       (Continue,
        s\<lparr>records_buffer :=
            \<lparr>record_list = [],
             dataframe_for_input_file =
               set_loc (fst row)
                 (\<lambda>r. r\<lparr>error := Some (''Assertion Error: Record with MMS ID '' @ m
                                         @ '' has already been processed.'')\<rparr>)
                 (dataframe_for_input_file (records_buffer s))\<rparr>\<rparr>)
     \<and> run_rows R valid flag (pre @ row # post) s0 =
       run_rows R valid flag post
         (s\<lparr>records_buffer :=
            \<lparr>record_list = [],
             dataframe_for_input_file =
               set_loc (fst row)
                 (\<lambda>r. r\<lparr>error := Some (''Assertion Error: Record with MMS ID '' @ m
                                         @ '' has already been processed.'')\<rparr>)
                 (dataframe_for_input_file (records_buffer s))\<rparr>\<rparr>)
     \<and> (fst row < length (dataframe_for_input_file (records_buffer s)) \<longrightarrow>
          error (dataframe_for_input_file (records_buffer
                   (snd (process_row R valid flag row s))) ! fst row)
            = Some (''Assertion Error: Record with MMS ID '' @ m
                    @ '' has already been processed.''))
     \<and> new_events (run_world s) (run_world (snd (process_row R valid flag row s))) = []"
proof -
  have seen: "m \<in> records_already_processed s"
    using run_rows_seen[OF reach] earlier id0 by blast
  have t: "try_row R valid flag row s =
       (Inl (AssertionError (''Record with MMS ID '' @ m @ '' has already been processed.'')), s)"
    using id1 seen by (simp add: try_row_def)
  have p: "process_row R valid flag row s =
       (Continue,
        s\<lparr>records_buffer :=
            \<lparr>record_list = [],
             dataframe_for_input_file =
               set_loc (fst row)
                 (\<lambda>r. r\<lparr>error := Some (''Assertion Error: Record with MMS ID '' @ m
                                         @ '' has already been processed.'')\<rparr>)
                 (dataframe_for_input_file (records_buffer s))\<rparr>\<rparr>)"
    by (simp add: process_row_def t finally_row_def search_remove_all_records_def)
  have r: "run_rows R valid flag (pre @ row # post) s0 =
       run_rows R valid flag (row # post) s"
    using reach by (simp add: run_rows_append)
  have e: "fst row < length (dataframe_for_input_file (records_buffer s)) \<longrightarrow>
          error (dataframe_for_input_file (records_buffer
                   (snd (process_row R valid flag row s))) ! fst row)
            = Some (''Assertion Error: Record with MMS ID '' @ m
                    @ '' has already been processed.'')"
    unfolding p by (simp add: set_loc_def)
  have n: "new_events (run_world s) (run_world (snd (process_row R valid flag row s))) = []"
    unfolding p by (simp add: new_events_def)
  show ?thesis
    using t p r e n by simp
qed

lemmas run_defs = process_row_def try_row_def finally_row_def
  run_process_records_def search_process_records_def search_add_def
  search_remove_all_records_def search_url_def set_loc_def environ_get_def
  make_api_request_def finish_request_def log_response_and_raise_for_status_def
  digits_only_def demo_row_def startswith_def str_exn_def

lemma demo_first_row:
  "run_rows (scripted [ok_response (SearchBody 1 [''42''])] (Granted demo_token) 0)
      digits_only False [(0, demo_row ''991'' ''n79021164'')]
      \<lparr>run_world = demo_world [(''OCLC_INSTITUTION_SYMBOL'', ''ABC'')],
       records_buffer = \<lparr>record_list = [],
          dataframe_for_input_file =
            [demo_row ''991'' ''n79021164'', demo_row ''991'' ''n79021164'']\<rparr>,
       records_already_processed = {}\<rparr>
   = (Continue,
      \<lparr>run_world = (demo_world [(''OCLC_INSTITUTION_SYMBOL'', ''ABC'')])
         \<lparr>trace := [ApiCall GET
            ''https://search/brief-bibs?q=nl:n79021164&heldBySymbol=ABC&transactionID=ABC_2021-09-30T22:43:07Z''
            ''tk_old'']\<rparr>,
       records_buffer = \<lparr>record_list = [],
          dataframe_for_input_file =
            [(demo_row ''991'' ''n79021164'')\<lparr>oclc_num := Some ''42''\<rparr>,
             demo_row ''991'' ''n79021164'']\<rparr>,
       records_already_processed = {''991''}\<rparr>)"
  by (simp add: run_defs demo_defs)

lemma duplicate_row_is_recorded_example:
  "process_row (scripted [ok_response (SearchBody 1 [''42''])] (Granted demo_token) 0)
      digits_only False (1, demo_row ''991'' ''n79021164'')
      (snd (run_rows (scripted [ok_response (SearchBody 1 [''42''])] (Granted demo_token) 0)
         digits_only False [(0, demo_row ''991'' ''n79021164'')]
         \<lparr>run_world = demo_world [(''OCLC_INSTITUTION_SYMBOL'', ''ABC'')],
          records_buffer = \<lparr>record_list = [],
             dataframe_for_input_file =
               [demo_row ''991'' ''n79021164'', demo_row ''991'' ''n79021164'']\<rparr>,
          records_already_processed = {}\<rparr>))
   = (Continue,
      \<lparr>run_world = (demo_world [(''OCLC_INSTITUTION_SYMBOL'', ''ABC'')])
         \<lparr>trace := [ApiCall GET
            ''https://search/brief-bibs?q=nl:n79021164&heldBySymbol=ABC&transactionID=ABC_2021-09-30T22:43:07Z''
            ''tk_old'']\<rparr>,
       records_buffer = \<lparr>record_list = [],
          dataframe_for_input_file =
            [(demo_row ''991'' ''n79021164'')\<lparr>oclc_num := Some ''42''\<rparr>,
             (demo_row ''991'' ''n79021164'')
               \<lparr>error := Some ''Assertion Error: Record with MMS ID 991 has already been processed.''\<rparr>]\<rparr>,
       records_already_processed = {''991''}\<rparr>)"
proof -
  have id: "digits_only (mms_id (snd (0::nat, demo_row ''991'' ''n79021164''))) ''MMS ID'' = Inr ''991''"
    "digits_only (mms_id (snd (1::nat, demo_row ''991'' ''n79021164''))) ''MMS ID'' = Inr ''991''"
    by (simp_all add: digits_only_def demo_row_def)
  have mem: "(0::nat, demo_row ''991'' ''n79021164'') \<in> set [(0, demo_row ''991'' ''n79021164'')]"
    by simp
  note dup = duplicate_row_is_recorded[OF demo_first_row mem id, of "[]", THEN conjunct2, THEN conjunct1]
  show ?thesis
    unfolding demo_first_row snd_conv
    using dup by (simp add: set_loc_def demo_row_def)
qed

section \<open>Facts about the retry\<close>

lemma str_nat_three_digits:
  assumes "100 \<le> c" and "c < 1000"
  shows "str_nat c = [''0123456789'' ! (c div 100), ''0123456789'' ! (c div 10 mod 10),
                      ''0123456789'' ! (c mod 10)]"
proof -
  have a: "\<not> c < 10" "\<not> c div 10 < 10" "c div 100 < 10" "c div 10 div 10 = c div 100"
    using assms by auto
  have s3: "str_nat (c div 100) = [''0123456789'' ! (c div 100)]"
    using a(3) by (subst str_nat.simps) simp
  have s2: "str_nat (c div 10) = str_nat (c div 100) @ [''0123456789'' ! (c div 10 mod 10)]"
    using a(2) a(4) by (subst str_nat.simps) simp
  have s1: "str_nat c = str_nat (c div 10) @ [''0123456789'' ! (c mod 10)]"
    using a(1) by (subst str_nat.simps) simp
  show ?thesis
    unfolding s1 s2 s3 by simp
qed

lemma server_error_status:
  assumes "500 \<le> c" and "c < 600"
  shows "startswith (str_nat c) ''5''"
proof -
  have "c div 100 = 5" using assms by auto
  then show ?thesis
    using str_nat_three_digits[of c] assms by (simp add: startswith_def)
qed

lemma client_error_status:
  assumes "400 \<le> c" and "c < 500"
  shows "\<not> startswith (str_nat c) ''5''"
proof -
  have "c div 100 = 4" using assms by auto
  then show ?thesis
    using str_nat_three_digits[of c] assms by (simp add: startswith_def)
qed

lemma server_error_is_retried_once:
  assumes "try_row R valid flag row s = (Inl (HTTPError m (Some c)), s1)"
    and "500 \<le> c" and "c < 600"
  shows "process_row R valid flag row s =
     (case run_process_records R flag s1 of
        (Inr u, s2) \<Rightarrow> finally_row (fst row) None False None s2
      | (Inl (HTTPError m2 status2), s2) \<Rightarrow>
          finally_row (fst row) (Some (''HTTP Error: '' @ m2)) True None s2
      | (Inl e, s2) \<Rightarrow>
          finally_row (fst row) (Some (''HTTP Error: '' @ m)) False (Some e) s2)"
  using assms server_error_status[of c] by (simp add: process_row_def)

lemma second_http_error_halts:
  assumes "try_row R valid flag row s = (Inl (HTTPError m (Some c)), s1)"
    and "500 \<le> c" and "c < 600"
    and "run_process_records R flag s1 = (Inl (HTTPError m2 status2), s2)"
  shows "run_rows R valid flag (row # rows) s =
     (Break,
      s2\<lparr>records_buffer := (records_buffer s2)
           \<lparr>dataframe_for_input_file :=
              set_loc (fst row) (\<lambda>r. r\<lparr>error := Some (''HTTP Error: '' @ m2)\<rparr>)
                (dataframe_for_input_file (records_buffer s2))\<rparr>\<rparr>)"
  using assms server_error_is_retried_once[OF assms(1-3)]
  by (simp add: finally_row_def)

lemma successful_retry_clears_error:
  assumes "try_row R valid flag row s = (Inl (HTTPError m (Some c)), s1)"
    and "500 \<le> c" and "c < 600"
    and "run_process_records R flag s1 = (Inr (), s2)"
  shows "process_row R valid flag row s =
     (Continue, s2\<lparr>records_buffer := search_remove_all_records (records_buffer s2)\<rparr>)"
  using assms server_error_is_retried_once[OF assms(1-3)]
  by (simp add: finally_row_def)

lemma client_error_is_recorded:
  assumes "try_row R valid flag row s = (Inl (HTTPError m (Some c)), s1)"
    and "400 \<le> c" and "c < 500"
  shows "process_row R valid flag row s =
     (Continue,
      s1\<lparr>records_buffer :=
           \<lparr>record_list = [],
            dataframe_for_input_file =
              set_loc (fst row) (\<lambda>r. r\<lparr>error := Some (''HTTP Error: '' @ m)\<rparr>)
                (dataframe_for_input_file (records_buffer s1))\<rparr>\<rparr>)"
  using assms client_error_status[of c]
  by (simp add: process_row_def finally_row_def search_remove_all_records_def)

lemma other_error_in_retry_leaves_the_loop:
  assumes "try_row R valid flag row s = (Inl (HTTPError m (Some c)), s1)"
    and "500 \<le> c" and "c < 600"
    and "run_process_records R flag s1 = (Inl (AssertionError a), s2)"
  shows "fst (run_rows R valid flag (row # rows) s) = Propagate (AssertionError a)"
  using assms server_error_is_retried_once[OF assms(1-3)]
  by (simp add: finally_row_def Let_def)

section \<open>Facts about main\<close>

text \<open>
  Where the module lacks the name \<open>RecordSearchBuffer\<close>, \<open>main\<close> ends at the line
  that builds the buffer: no row is read, no request is sent, no output file is written.
\<close>

lemma main_raises_without_the_buffer_name:
  assumes "namespace ''RecordSearchBuffer'' = None"
    and "environ w ''OCLC_INSTITUTION_SYMBOL'' = Some symbol"
  shows "main namespace R valid flag w input =
     (Some (AttributeError (''module '' @ quoted ''libraries.records_buffer''
              @ '' has no attribute '' @ quoted ''RecordSearchBuffer'')),
      None,
      \<lparr>run_world = w,
       records_buffer =
         \<lparr>record_list = [],
          dataframe_for_input_file =
            map (\<lambda>r. r\<lparr>oclc_num := None, num_records_held_by := None,
                         num_records_total := None, error := None\<rparr>) input\<rparr>,
       records_already_processed = {}\<rparr>)"
  using assms by (simp add: main_def environ_get_def module_getattr_def)

lemma records_buffer_module_lacks_the_name:
  "records_buffer_module ''RecordSearchBuffer'' = None"
  by (simp add: records_buffer_module_def)

text \<open>
  The log line ahead of the final assertion reads a counter that the buffer does not
  have, so \<open>main\<close> never returns without an exception, whatever the module binds the
  name to: the final assertion is never evaluated.
\<close>

lemma finish_main_raises:
  "finish_main s =
     (Some (AttributeError (quoted ''WorldCatSearchBuffer'' @ '' object has no attribute ''
              @ quoted ''num_api_requests_made'')),
      Some (create_outputs (dataframe_for_input_file (records_buffer s))), s)"
  by (simp add: finish_main_def search_buffer_getattr_def search_buffer_attributes_def)

lemma main_never_reaches_the_final_check:
  "fst (main namespace R valid flag w input) \<noteq> None"
proof -
  let ?data = "map (\<lambda>r. r\<lparr>oclc_num := None, num_records_held_by := None,
                         num_records_total := None, error := None\<rparr>) input"
  show ?thesis
  proof (cases "environ_get (environ w) ''OCLC_INSTITUTION_SYMBOL''")
    case (Inl e)
    then show ?thesis by (simp add: main_def)
  next
    case symbol: (Inr symbol)
    show ?thesis
    proof (cases "module_getattr namespace ''RecordSearchBuffer''")
      case (Inl e)
      then show ?thesis using symbol by (simp add: main_def)
    next
      case cls: (Inr cls)
      show ?thesis
      proof (cases "construct cls R ?data w")
        case (Inl e)
        then show ?thesis using symbol cls by (simp add: main_def)
      next
        case (Inr built)
        obtain w1 b where built: "built = (w1, b)" by (cases built)
        obtain out s where loop:
          "run_rows R valid flag (itertuples ?data)
             \<lparr>run_world = w1, records_buffer = b, records_already_processed = {}\<rparr> = (out, s)"
          by (cases "run_rows R valid flag (itertuples ?data)
             \<lparr>run_world = w1, records_buffer = b, records_already_processed = {}\<rparr>")
        show ?thesis
          using symbol cls Inr built loop
          by (cases out) (simp_all add: main_def finish_main_raises)
      qed
    qed
  qed
qed

lemmas main_defs = module_with_search_buffer_name_def records_buffer_module_def
  module_getattr_def construct_def search_buffer_init_def records_buffer_init_def
  demo_credentials_def

section \<open>The driver with the buffer name bound\<close>

text \<open>
  What the rest of \<open>main\<close> does where the name \<open>RecordSearchBuffer\<close> is bound to the
  search buffer class, which the sources do not do. First attempt for row 0 with status
  503, retry with zero matches: the assertion error of the retry is caught by no handler
  and leaves \<open>main\<close>; no output file is written and row 1 is never requested.
\<close>

lemma retry_raising_another_error_ends_the_run:
  "fst (main module_with_search_buffer_name
          (scripted [error_response 503, ok_response (SearchBody 0 [])] (Granted demo_token) 0)
          digits_only False (demo_world demo_credentials)
          [demo_row ''991'' ''n79021164'', demo_row ''992'' ''n50034079''])
     = Some (AssertionError ''No records found in WorldCat.'')
   \<and> fst (snd (main module_with_search_buffer_name
          (scripted [error_response 503, ok_response (SearchBody 0 [])] (Granted demo_token) 0)
          digits_only False (demo_world demo_credentials)
          [demo_row ''991'' ''n79021164'', demo_row ''992'' ''n50034079'']))
     = None
   \<and> api_urls (trace (run_world (snd (snd (main module_with_search_buffer_name
          (scripted [error_response 503, ok_response (SearchBody 0 [])] (Granted demo_token) 0)
          digits_only False (demo_world demo_credentials)
          [demo_row ''991'' ''n79021164'', demo_row ''992'' ''n50034079''])))))
     = [''https://search/brief-bibs?q=nl:n79021164&heldBySymbol=ABC&transactionID=ABC_2021-09-30T22:43:07Z'',
        ''https://search/brief-bibs?q=nl:n79021164&heldBySymbol=ABC&transactionID=ABC_2021-09-30T22:43:07Z'']"
  by (simp add: main_def main_defs itertuples_def upt_rec run_defs demo_defs str_nat.simps)

text \<open>
  One row whose search returns two matches: the row is marked in the column
  \<open>found_multiple_oclc_nums\<close>, which no output file is built from, so the three files
  are written empty; then the log line raises, ahead of the final assertion.
\<close>

lemma multiple_matches_in_no_output_file:
  "fst (main module_with_search_buffer_name
          (scripted [ok_response (SearchBody 2 [''41'', ''42''])] (Granted demo_token) 0)
          digits_only False (demo_world demo_credentials) [demo_row ''991'' ''n79021164''])
     = Some (AttributeError (quoted ''WorldCatSearchBuffer'' @ '' object has no attribute ''
               @ quoted ''num_api_requests_made''))
   \<and> fst (snd (main module_with_search_buffer_name
          (scripted [ok_response (SearchBody 2 [''41'', ''42''])] (Granted demo_token) 0)
          digits_only False (demo_world demo_credentials) [demo_row ''991'' ''n79021164'']))
     = Some \<lparr>records_with_oclc_num = [],
             records_with_zero_or_multiple_worldcat_matches = [],
             records_with_errors = []\<rparr>"
  by (simp add: main_def main_defs finish_main_raises itertuples_def upt_rec run_defs
      demo_defs str_nat.simps create_outputs_def)

text \<open>
  Two HTTP errors 503 on row 0: the run is halted, row 0 is in the file of errors and
  row 1 is in no file.
\<close>

lemma halted_run_leaves_rows_out:
  "map mms_id (records_with_errors (the (fst (snd (main module_with_search_buffer_name
          (scripted [error_response 503, error_response 503] (Granted demo_token) 0)
          digits_only False (demo_world demo_credentials)
          [demo_row ''991'' ''n79021164'', demo_row ''992'' ''n50034079'']))))) = [''991'']
   \<and> records_with_oclc_num (the (fst (snd (main module_with_search_buffer_name
          (scripted [error_response 503, error_response 503] (Granted demo_token) 0)
          digits_only False (demo_world demo_credentials)
          [demo_row ''991'' ''n79021164'', demo_row ''992'' ''n50034079''])))) = []
   \<and> records_with_zero_or_multiple_worldcat_matches (the (fst (snd (main
          module_with_search_buffer_name
          (scripted [error_response 503, error_response 503] (Granted demo_token) 0)
          digits_only False (demo_world demo_credentials)
          [demo_row ''991'' ''n79021164'', demo_row ''992'' ''n50034079''])))) = []"
  by (simp add: main_def main_defs finish_main_raises itertuples_def upt_rec run_defs
      demo_defs str_nat.simps create_outputs_def)

section \<open>C3: the retry policy of the driver\<close>

text \<open>
  Claim C3 names a second HTTP error on the retry as the only condition that halts the
  run. \<open>main\<close> builds its buffer as \<open>libraries.records_buffer.RecordSearchBuffer\<close>, a
  name that \<open>records_buffer.py\<close> does not define, so every run is halted at that line by
  an \<open>AttributeError\<close>, before the first row and with no HTTP error: here an input of
  two rows, for which no request is sent and no output file is written. (The loop that
  follows does retry a 5xx error once, break on a second HTTP error, clear the error after
  a successful retry and record a 4xx error without a retry, as the lemmas on the retry
  show; its handler for the retry catches HTTP errors only, so with the name bound a
  retry that raises another exception ends the run too.)
\<close>

theorem C3_run_halts_at_the_buffer_name:
  "fst (main records_buffer_module
          (scripted [error_response 503, ok_response (SearchBody 0 [])] (Granted demo_token) 0)
          digits_only False (demo_world demo_credentials)
          [demo_row ''991'' ''n79021164'', demo_row ''992'' ''n50034079''])
     = Some (AttributeError (''module '' @ quoted ''libraries.records_buffer''
               @ '' has no attribute '' @ quoted ''RecordSearchBuffer''))
   \<and> fst (snd (main records_buffer_module
          (scripted [error_response 503, ok_response (SearchBody 0 [])] (Granted demo_token) 0)
          digits_only False (demo_world demo_credentials)
          [demo_row ''991'' ''n79021164'', demo_row ''992'' ''n50034079'']))
     = None
   \<and> trace (run_world (snd (snd (main records_buffer_module
          (scripted [error_response 503, ok_response (SearchBody 0 [])] (Granted demo_token) 0)
          digits_only False (demo_world demo_credentials)
          [demo_row ''991'' ''n79021164'', demo_row ''992'' ''n50034079'']))))
     = []"
  by (simp add: main_def environ_get_def module_getattr_def records_buffer_module_def
      demo_world_def demo_credentials_def)

section \<open>C8: the end-of-run reconciliation\<close>

text \<open>
  Claim C8 says that every row ends in exactly one output file, that the rows of the
  output files add up to the rows of the input, and that \<open>main\<close> checks this on every
  run. \<open>main\<close> has the assertion as its last statement, and never comes to it: every
  run ends with the \<open>AttributeError\<close> of the line that builds the buffer, before any
  output file is written, so the one row of this input is in no output file. (With the
  name bound, the log line ahead of the assertion raises for a counter that the buffer
  lacks, and a row with several matches or a row after a halt is in no output file, as
  the lemmas above show.)
\<close>

theorem C8_no_row_reaches_an_output_file:
  "fst (main records_buffer_module
          (scripted [ok_response (SearchBody 2 [''41'', ''42''])] (Granted demo_token) 0)
          digits_only False (demo_world demo_credentials) [demo_row ''991'' ''n79021164''])
     = Some (AttributeError (''module '' @ quoted ''libraries.records_buffer''
               @ '' has no attribute '' @ quoted ''RecordSearchBuffer''))
   \<and> fst (snd (main records_buffer_module
          (scripted [ok_response (SearchBody 2 [''41'', ''42''])] (Granted demo_token) 0)
          digits_only False (demo_world demo_credentials) [demo_row ''991'' ''n79021164'']))
     = None"
  by (simp add: main_def environ_get_def module_getattr_def records_buffer_module_def
      demo_world_def demo_credentials_def)

section \<open>C10: a row whose MMS ID was already processed\<close>

text \<open>
  Claim C10 has a row whose MMS ID repeats that of an earlier row caught by the check
  before \<open>add\<close>, recorded in its error column, and the run going on. The loop is
  written to do so (lemma \<open>duplicate_row_is_recorded\<close>), but \<open>main\<close> does not come to
  the loop: it ends with the \<open>AttributeError\<close> of the line that builds the buffer.
  Here the two rows of the input have the same MMS ID; no request is sent, the error
  column of the second row stays empty, and no output file is written.
\<close>

theorem C10_duplicate_row_is_never_checked:
  "fst (main records_buffer_module
          (scripted [ok_response (SearchBody 1 [''42''])] (Granted demo_token) 0)
          digits_only False (demo_world demo_credentials)
          [demo_row ''991'' ''n79021164'', demo_row ''991'' ''n79021164''])
     = Some (AttributeError (''module '' @ quoted ''libraries.records_buffer''
               @ '' has no attribute '' @ quoted ''RecordSearchBuffer''))
   \<and> fst (snd (main records_buffer_module
          (scripted [ok_response (SearchBody 1 [''42''])] (Granted demo_token) 0)
          digits_only False (demo_world demo_credentials)
          [demo_row ''991'' ''n79021164'', demo_row ''991'' ''n79021164'']))
     = None
   \<and> map error (dataframe_for_input_file (records_buffer (snd (snd (main
          records_buffer_module
          (scripted [ok_response (SearchBody 1 [''42''])] (Granted demo_token) 0)
          digits_only False (demo_world demo_credentials)
          [demo_row ''991'' ''n79021164'', demo_row ''991'' ''n79021164''])))))
     = [None, None]
   \<and> trace (run_world (snd (snd (main records_buffer_module
          (scripted [ok_response (SearchBody 1 [''42''])] (Granted demo_token) 0)
          digits_only False (demo_world demo_credentials)
          [demo_row ''991'' ''n79021164'', demo_row ''991'' ''n79021164'']))))
     = []"
  by (simp add: main_def environ_get_def module_getattr_def records_buffer_module_def
      demo_world_def demo_credentials_def demo_row_def)

section \<open>C5: what the search buffer searches for\<close>

text \<open>
  What the search does with the number of matches, and that its parameter plays no part.
\<close>

lemma search_outcome_by_number_of_records:
  assumes "record_list b = [(i, row)]"
    and "environ w ''WORLDCAT_METADATA_API_URL_FOR_SEARCH'' = Some base"
    and "environ w ''OCLC_INSTITUTION_SYMBOL'' = Some symbol"
    and "make_api_request R GET (search_url base symbol row) w = (Inr api_response, w1)"
    and "body api_response = SearchBody n (oclcNumber # rest)"
  shows "search_process_records R flag (w, b) =
     (if n = 0 then (Inl (AssertionError ''No records found in WorldCat.''), (w1, b))
      else if n = 1 then
        (Inr (), (w1, b\<lparr>dataframe_for_input_file :=
                        set_loc i (\<lambda>r. r\<lparr>oclc_num := Some oclcNumber\<rparr>)
                          (dataframe_for_input_file b)\<rparr>))
      else
        (Inr (), (w1, b\<lparr>dataframe_for_input_file :=
                        set_loc i (\<lambda>r. r\<lparr>found_multiple_oclc_nums := Some True\<rparr>)
                          (dataframe_for_input_file b)\<rparr>)))"
  using assms by (simp add: search_process_records_def environ_get_def)

lemma search_ignores_its_parameter:
  "search_process_records R True st = search_process_records R False st"
  by (simp add: search_process_records_def)

text \<open>
  Claim C5 has the search use the first identifier present in the order fixed LCCN,
  LCCN, ISBN, ISSN, government document number, and filter by holding institution only
  when the caller asks for that order (as the docstrings of \<open>main\<close> and of
  \<open>process_records\<close> describe). \<open>process_records\<close> builds its one query from the
  \<open>lccn\<close> column and always adds \<open>heldBySymbol\<close>: here the row has a fixed LCCN and an
  ISBN but no LCCN, the caller does not ask for the holdings-first order, and the request
  is the LCCN query with an empty number and the filter.
\<close>

theorem C5_search_uses_lccn_only:
  "api_urls (trace (fst (snd (search_process_records
      (scripted [ok_response (SearchBody 1 [''42''])] (Granted demo_token) 0) False
      (demo_world [(''OCLC_INSTITUTION_SYMBOL'', ''ABC'')],
       \<lparr>record_list = [(0, (demo_row ''991'' [])
            \<lparr>lccn_fixed := ''2001012345'', isbn := ''9780131103627''\<rparr>)],
        dataframe_for_input_file = [(demo_row ''991'' [])
            \<lparr>lccn_fixed := ''2001012345'', isbn := ''9780131103627''\<rparr>]\<rparr>)))))
   = [''https://search/brief-bibs?q=nl:&heldBySymbol=ABC&transactionID=ABC_2021-09-30T22:43:07Z'']"
  by (simp add: run_defs demo_defs)

end
